theory Spec2Isabelle
  imports Complex_Main "HOL-Library.Multiset" "HOL-Library.AList" "HOL-Library.Sublist"
begin

section \<open>Trend ranking (TrendAnalyzer)\<close>

text \<open>
  The dataclass \<^verbatim>\<open>TrendTopic\<close>. Python floats are modelled by exact rationals:
  the properties below concern the order of the scores and the places where they are
  stored, not their rounding.
\<close>

record TrendTopic =
  title :: string
  category :: string
  search_volume :: int
  growth_rate :: rat
  region :: string
  related_keywords :: "string list"
  content_suggestions :: "string list"
  source :: string
  confidence_score :: rat

text \<open>\<^verbatim>\<open>d.get(k, default)\<close> on a dictionary.\<close>

definition dict_get :: "('k \<rightharpoonup> 'v) \<Rightarrow> 'k \<Rightarrow> 'v \<Rightarrow> 'v" where
  "dict_get d k dflt = (case d k of None \<Rightarrow> dflt | Some v \<Rightarrow> v)"

definition category_bonus :: "string \<rightharpoonup> rat" where
  "category_bonus =
     [''finance'' \<mapsto> 13 / 10, ''tech'' \<mapsto> 12 / 10, ''education'' \<mapsto> 11 / 10,
      ''lifestyle'' \<mapsto> 9 / 10, ''entertainment'' \<mapsto> 8 / 10]"

definition source_bonus :: "string \<rightharpoonup> rat" where
  "source_bonus = [''youtube'' \<mapsto> 12 / 10, ''google_trends'' \<mapsto> 11 / 10, ''reddit'' \<mapsto> 9 / 10]"

text \<open>
  The body of the \<^verbatim>\<open>for trend in trends\<close> loop of \<^verbatim>\<open>_score_and_rank_trends\<close>: the
  final score is assigned to \<^verbatim>\<open>trend.confidence_score\<close>.
\<close>

definition score_trend :: "TrendTopic \<Rightarrow> TrendTopic" where
  "score_trend trend =
     (let base_score = confidence_score trend;
          base_score = base_score * dict_get category_bonus (category trend) 1;
          base_score = base_score * dict_get source_bonus (source trend) 1;
          base_score = (if search_volume trend > 1000 then base_score * (12 / 10)
                        else if search_volume trend > 500 then base_score * (11 / 10)
                        else base_score)
      in trend\<lparr>confidence_score := min base_score 1\<rparr>)"

text \<open>
  The list handed to the ranking holds references to \<^verbatim>\<open>TrendTopic\<close> objects, and the
  loop writes into the objects themselves. The store maps a reference to the object it
  denotes.
\<close>

type_synonym ref = nat
type_synonym store = "ref \<Rightarrow> TrendTopic"

fun score_loop :: "ref list \<Rightarrow> store \<Rightarrow> store" where
  "score_loop [] h = h"
| "score_loop (r # rs) h = score_loop rs (h(r := score_trend (h r)))"

text \<open>
  \<^verbatim>\<open>sorted(trends, key=lambda x: x.confidence_score, reverse=True)\<close>: Python's sort is
  stable, also with \<^verbatim>\<open>reverse=True\<close> (elements with equal keys keep their original
  order). That is the stable insertion sort on the negated key.
\<close>

definition sorted_reverse :: "('a \<Rightarrow> rat) \<Rightarrow> 'a list \<Rightarrow> 'a list" where
  "sorted_reverse key xs = sort_key (\<lambda>x. - key x) xs"

definition score_and_rank_trends :: "ref list \<Rightarrow> store \<Rightarrow> ref list \<times> store" where
  "score_and_rank_trends trends h =
     (let h' = score_loop trends h
      in (sorted_reverse (\<lambda>r. confidence_score (h' r)) trends, h'))"

text \<open>
  Exceptions as values. \<^verbatim>\<open>Exception m\<close> stands for an instance of any subclass of
  Python's \<^verbatim>\<open>Exception\<close> whose \<^verbatim>\<open>str\<close> is \<open>m\<close>; \<^verbatim>\<open>BaseExc c\<close> for an exception
  of a class \<open>c\<close> outside that hierarchy (\<^verbatim>\<open>KeyboardInterrupt\<close>,
  \<^verbatim>\<open>CancelledError\<close>, \<^verbatim>\<open>SystemExit\<close>), which \<^verbatim>\<open>except Exception\<close> does not catch.
\<close>

datatype exn = Exception string | BaseExc string

text \<open>The slice \<^verbatim>\<open>xs[:count]\<close>; a negative \<^verbatim>\<open>count\<close> counts from the end.\<close>

definition slice_to :: "'a list \<Rightarrow> int \<Rightarrow> 'a list" where
  "slice_to xs cnt =
     (if 0 \<le> cnt then take (nat cnt) xs else take (nat (int (length xs) + cnt)) xs)"

text \<open>
  The loop over the results of \<^verbatim>\<open>asyncio.gather(*tasks, return_exceptions=True)\<close>: a
  list extends \<^verbatim>\<open>all_trends\<close>, an exception contributes nothing.
\<close>

fun extend_all_trends :: "(exn + TrendTopic list) list \<Rightarrow> TrendTopic list \<Rightarrow> TrendTopic list" where
  "extend_all_trends [] all_trends = all_trends"
| "extend_all_trends (Inr result # results) all_trends =
     extend_all_trends results (all_trends @ result)"
| "extend_all_trends (Inl e # results) all_trends = extend_all_trends results all_trends"

text \<open>
  \<^verbatim>\<open>get_trending_topics\<close>, given what the three source adapters returned. Every
  adapter builds its topics with fresh \<^verbatim>\<open>TrendTopic(...)\<close> calls, so the objects of
  \<^verbatim>\<open>all_trends\<close> are pairwise distinct: object \<open>i\<close> of the list gets reference \<open>i\<close>.
\<close>

definition get_trending_topics ::
  "(exn + TrendTopic list) \<Rightarrow> (exn + TrendTopic list) \<Rightarrow> (exn + TrendTopic list) \<Rightarrow> int
     \<Rightarrow> TrendTopic list" where
  "get_trending_topics google_trends youtube reddit cnt =
     (let all_trends = extend_all_trends [google_trends, youtube, reddit] [];
          (scored_trends, h') =
             score_and_rank_trends [0 ..< length all_trends] (\<lambda>r. all_trends ! r)
      in map h' (slice_to scored_trends cnt))"

text \<open>
  Sample topics, with the constants the adapters use: \<^verbatim>\<open>_get_google_trends\<close> sets
  \<^verbatim>\<open>search_volume=1000\<close> and \<^verbatim>\<open>confidence_score=0.7\<close>, \<^verbatim>\<open>_get_youtube_trends\<close> sets
  \<^verbatim>\<open>confidence_score=0.8\<close> and a thousandth of the view count as volume.
\<close>

definition google_topic :: TrendTopic where
  "google_topic =
     \<lparr>title = ''5 Stocks Tips That Actually Work'', category = ''finance'',
      search_volume = 1000, growth_rate = 8 / 10, region = ''US'',
      related_keywords = [''stocks''], content_suggestions = [],
      source = ''google_trends'', confidence_score = 7 / 10\<rparr>"

definition youtube_topic :: TrendTopic where
  "youtube_topic =
     \<lparr>title = ''5 Money Tips That Actually Work'', category = ''finance'',
      search_volume = 250, growth_rate = 6 / 10, region = ''US'',
      related_keywords = [''money''], content_suggestions = [],
      source = ''youtube'', confidence_score = 8 / 10\<rparr>"

definition untitled_topic :: TrendTopic where
  "untitled_topic =
     \<lparr>title = [], category = ''general'', search_volume = 150, growth_rate = 5 / 10,
      region = ''Global'', related_keywords = [], content_suggestions = [],
      source = ''reddit'', confidence_score = 6 / 10\<rparr>"

section \<open>Voice synthesis (VoiceoverGenerator)\<close>

subsection \<open>Splitting the text\<close>

text \<open>
  A Python \<^verbatim>\<open>str\<close> is modelled as a list of characters, one \<^typ>\<open>char\<close> per code point
  (code points below 256). \<^verbatim>\<open>text.split('. ')\<close> cuts at the occurrences of the
  separator found from left to right; the result is never empty.
\<close>

fun split_sentences :: "string \<Rightarrow> string list" where
  "split_sentences [] = [[]]"
| "split_sentences [c] = [[c]]"
| "split_sentences (c # d # cs) =
     (if c = CHR ''.'' \<and> d = CHR '' '' then [] # split_sentences cs
      else (case split_sentences (d # cs) of
              [] \<Rightarrow> [[c]]
            | sentence # sentences \<Rightarrow> (c # sentence) # sentences))"

text \<open>
  \<^verbatim>\<open>str.strip()\<close> removes the whitespace at both ends; the whitespace characters
  below code point 256 are those of \<^verbatim>\<open>str.isspace\<close>.
\<close>

definition isspace :: "char \<Rightarrow> bool" where
  "isspace c = (of_char c \<in> {9, 10, 11, 12, 13, 28, 29, 30, 31, 32, 133, 160 :: nat})"

definition strip :: "string \<Rightarrow> string" where
  "strip s = rev (dropWhile isspace (rev (dropWhile isspace s)))"

text \<open>
  The loop of \<^verbatim>\<open>_split_text_for_tts\<close> over the sentences, with the list
  \<^verbatim>\<open>chunks\<close> and the string \<^verbatim>\<open>current_chunk\<close> as its state.
\<close>

fun split_loop :: "int \<Rightarrow> string list \<Rightarrow> string list \<Rightarrow> string \<Rightarrow> string list" where
  "split_loop max_chars [] chunks current_chunk =
     (if current_chunk \<noteq> [] then chunks @ [strip current_chunk] else chunks)"
| "split_loop max_chars (sentence # sentences) chunks current_chunk =
     (if int (length (current_chunk @ sentence @ ''. '')) \<le> max_chars
      then split_loop max_chars sentences chunks (current_chunk @ sentence @ ''. '')
      else split_loop max_chars sentences
             (if current_chunk \<noteq> [] then chunks @ [strip current_chunk] else chunks)
             (sentence @ ''. ''))"

definition split_text_for_tts :: "string \<Rightarrow> int \<Rightarrow> string list" where
  "split_text_for_tts text max_chars =
     (if int (length text) \<le> max_chars then [text]
      else split_loop max_chars (split_sentences text) [] [])"

text \<open>The default of the parameter \<^verbatim>\<open>max_chars\<close>.\<close>

definition default_max_chars :: int where
  "default_max_chars = 2500"

text \<open>
  The same loop without the calls of \<^verbatim>\<open>strip\<close>: the pieces of the text as the loop
  cuts them, before the whitespace at their ends is removed. It serves to state what
  the chunks are.
\<close>

fun unstripped_loop :: "int \<Rightarrow> string list \<Rightarrow> string list \<Rightarrow> string \<Rightarrow> string list" where
  "unstripped_loop max_chars [] pieces current_chunk =
     (if current_chunk \<noteq> [] then pieces @ [current_chunk] else pieces)"
| "unstripped_loop max_chars (sentence # sentences) pieces current_chunk =
     (if int (length (current_chunk @ sentence @ ''. '')) \<le> max_chars
      then unstripped_loop max_chars sentences pieces (current_chunk @ sentence @ ''. '')
      else unstripped_loop max_chars sentences
             (if current_chunk \<noteq> [] then pieces @ [current_chunk] else pieces)
             (sentence @ ''. ''))"

text \<open>A text of two sentences of 1500 characters each, 3002 characters long.\<close>

definition two_sentences :: string where
  "two_sentences = replicate 1500 CHR ''a'' @ ''. '' @ replicate 1500 CHR ''b''"

subsection \<open>The generator's state and its environment\<close>

text \<open>
  The values of a voice configuration are strings, numbers and booleans. A
  configuration is a dictionary object. \<^verbatim>\<open>self.voice_configs\<close> and
  \<^verbatim>\<open>self.style_presets\<close> hold references to such objects: two entries may refer to
  one object, and a write through one entry is then seen through the other. The field
  \<open>objects\<close> maps a reference to the contents of the object it denotes.
\<close>

datatype cfg_value = CStr string | CNum rat | CBool bool

type_synonym voice_config = "string \<rightharpoonup> cfg_value"

record voice_state =
  api_key :: "string option"
  api_base :: string
  voice_configs :: "string \<rightharpoonup> ref"
  style_presets :: "string \<rightharpoonup> ref"
  output_dir :: string
  objects :: "ref \<Rightarrow> voice_config"

definition language_config :: "string \<Rightarrow> rat \<Rightarrow> rat \<Rightarrow> rat \<Rightarrow> voice_config" where
  "language_config voice stability similarity style =
     [''voice_id'' \<mapsto> CStr voice, ''model_id'' \<mapsto> CStr ''eleven_multilingual_v2'',
      ''stability'' \<mapsto> CNum stability, ''similarity_boost'' \<mapsto> CNum similarity,
      ''style'' \<mapsto> CNum style, ''use_speaker_boost'' \<mapsto> CBool True]"

definition style_preset :: "rat \<Rightarrow> rat \<Rightarrow> rat \<Rightarrow> voice_config" where
  "style_preset stability similarity style =
     [''stability'' \<mapsto> CNum stability, ''similarity_boost'' \<mapsto> CNum similarity,
      ''style'' \<mapsto> CNum style]"

text \<open>
  The state \<^verbatim>\<open>__init__\<close> builds, given the value of the API key variable: nine
  dictionary objects, each with one entry referring to it.
\<close>

definition init_objects :: "ref \<Rightarrow> voice_config" where
  "init_objects =
     (\<lambda>r. Map.empty)
       (0 := language_config ''21m00Tcm4TlvDq8ikWAM'' (5 / 10) (8 / 10) 0,
        1 := language_config ''pNInz6obpgDQGcFmaJgB'' (6 / 10) (7 / 10) (1 / 10),
        2 := language_config ''Xb7hH8MSUJpSbSDYk0k2'' (4 / 10) (9 / 10) (2 / 10),
        3 := language_config ''pMsXgVXv3BLzUgSXRplE'' (5 / 10) (8 / 10) (1 / 10),
        4 := style_preset (6 / 10) (8 / 10) 0,
        5 := style_preset (4 / 10) (9 / 10) (3 / 10),
        6 := style_preset (8 / 10) (6 / 10) (1 / 10),
        7 := style_preset (5 / 10) (7 / 10) (2 / 10),
        8 := style_preset (7 / 10) (8 / 10) 0)"

definition init_voice_state :: "string option \<Rightarrow> voice_state" where
  "init_voice_state key =
     \<lparr>api_key = key,
      api_base = ''https://api.elevenlabs.io/v1'',
      voice_configs = [''en'' \<mapsto> 0, ''de'' \<mapsto> 1, ''ko'' \<mapsto> 2, ''zh'' \<mapsto> 3],
      style_presets =
        [''professional'' \<mapsto> 4, ''energetic'' \<mapsto> 5, ''calm'' \<mapsto> 6, ''friendly'' \<mapsto> 7,
         ''formal'' \<mapsto> 8],
      output_dir = ''output/audio'',
      objects = init_objects\<rparr>"

text \<open>The JSON body of the synthesis request.\<close>

record tts_payload =
  payload_text :: string
  payload_model_id :: cfg_value
  payload_stability :: cfg_value
  payload_similarity_boost :: cfg_value
  payload_style :: cfg_value
  payload_use_speaker_boost :: cfg_value

text \<open>
  What the generator does not control: the synthesis service, the file system, the
  \<^verbatim>\<open>ffmpeg\<close> process, the \<^verbatim>\<open>gTTS\<close> library and the clock. Each call either returns
  or raises.
  \<^item> \<open>post_tts base voice key payload\<close>: the status of the response to the POST request;
  \<^item> \<open>save_response path\<close>: reading the response body and writing it to \<open>path\<close>;
  \<^item> \<open>ffmpeg_concat files out\<close>: writing the file list and running \<^verbatim>\<open>ffmpeg\<close>; its
    return code;
  \<^item> \<open>unlink_files files\<close>: removing the file list and the chunk files;
  \<^item> \<open>gtts_save text lang path\<close>: importing \<^verbatim>\<open>gtts\<close>, synthesising and saving;
  \<^item> \<open>ffmpeg_silence seconds path\<close>: running \<^verbatim>\<open>ffmpeg\<close> for a silent file; its return
    code, which the generator does not look at;
  \<^item> \<open>timestamp\<close>: the formatted reading of the clock.
\<close>

record voice_env =
  post_tts :: "string \<Rightarrow> cfg_value \<Rightarrow> string option \<Rightarrow> tts_payload \<Rightarrow> exn + nat"
  save_response :: "string \<Rightarrow> exn + unit"
  ffmpeg_concat :: "string list \<Rightarrow> string \<Rightarrow> exn + int"
  unlink_files :: "string list \<Rightarrow> exn + unit"
  gtts_save :: "string \<Rightarrow> string \<Rightarrow> string \<Rightarrow> exn + unit"
  ffmpeg_silence :: "nat \<Rightarrow> string \<Rightarrow> exn + int"
  timestamp :: string

text \<open>
  \<^verbatim>\<open>try: ... except Exception as e: ...\<close> handles an \<^verbatim>\<open>Exception\<close> and lets every
  other exception pass.
\<close>

definition except_Exception :: "exn + 'a \<Rightarrow> (string \<Rightarrow> exn + 'a) \<Rightarrow> exn + 'a" where
  "except_Exception body handler =
     (case body of
        Inl (Exception msg) \<Rightarrow> handler msg
      | Inl (BaseExc msg) \<Rightarrow> Inl (BaseExc msg)
      | Inr v \<Rightarrow> Inr v)"

text \<open>Sequencing: an exception of the first step skips the rest.\<close>

definition and_then :: "exn + 'a \<Rightarrow> ('a \<Rightarrow> exn + 'b) \<Rightarrow> exn + 'b" where
  "and_then step rest = (case step of Inl e \<Rightarrow> Inl e | Inr v \<Rightarrow> rest v)"

text \<open>
  \<^verbatim>\<open>d[k]\<close> raises \<^verbatim>\<open>KeyError(k)\<close> on a missing key. The \<^verbatim>\<open>str\<close> of that
  exception is \<^verbatim>\<open>repr(k)\<close>: for a key of letters, digits and underscores, the key
  between single quotes.
\<close>

definition repr_str :: "string \<Rightarrow> string" where
  "repr_str k = [CHR 0x27] @ k @ [CHR 0x27]"

definition subscript :: "(string \<rightharpoonup> 'v) \<Rightarrow> string \<Rightarrow> exn + 'v" where
  "subscript d k = (case d k of None \<Rightarrow> Inl (Exception (repr_str k)) | Some v \<Rightarrow> Inr v)"

text \<open>Decimal digits of a number, as an f-string prints it.\<close>

fun str_nat :: "nat \<Rightarrow> string" where
  "str_nat n =
     (if n < 10 then [char_of (48 + n)] else str_nat (n div 10) @ [char_of (48 + n mod 10)])"

text \<open>Truth value of a string that may be \<^verbatim>\<open>None\<close>: neither \<^verbatim>\<open>None\<close> nor empty.\<close>

definition truthy :: "string option \<Rightarrow> bool" where
  "truthy v = (case v of None \<Rightarrow> False | Some s \<Rightarrow> s \<noteq> [])"

subsection \<open>The synthesis cascade\<close>

text \<open>
  \<^verbatim>\<open>_generate_audio_chunk\<close>: the path of the chunk's file, or \<^verbatim>\<open>None\<close> on a status
  other than 200 and on every \<^verbatim>\<open>Exception\<close>.
\<close>

definition generate_audio_chunk ::
  "voice_env \<Rightarrow> voice_state \<Rightarrow> string \<Rightarrow> voice_config \<Rightarrow> string \<Rightarrow> nat \<Rightarrow> exn + string option" where
  "generate_audio_chunk env st text voice_config language chunk_index =
     except_Exception
       (and_then (subscript voice_config ''voice_id'') (\<lambda>voice_id.
        and_then (subscript voice_config ''model_id'') (\<lambda>model_id.
        and_then (subscript voice_config ''stability'') (\<lambda>stability.
        and_then (subscript voice_config ''similarity_boost'') (\<lambda>similarity_boost.
        let payload =
              \<lparr>payload_text = text, payload_model_id = model_id,
               payload_stability = stability,
               payload_similarity_boost = similarity_boost,
               payload_style = dict_get voice_config ''style'' (CNum 0),
               payload_use_speaker_boost =
                 dict_get voice_config ''use_speaker_boost'' (CBool True)\<rparr>
        in and_then (post_tts env (api_base st) voice_id (api_key st) payload) (\<lambda>status.
           if status = 200 then
             let filename = ''voice_'' @ language @ ''_'' @ timestamp env @ ''_chunk''
                              @ str_nat chunk_index @ ''.mp3'';
                 filepath = output_dir st @ ''/'' @ filename
             in and_then (save_response env filepath) (\<lambda>_. Inr (Some filepath))
           else Inr None))))))
       (\<lambda>msg. Inr None)"

text \<open>
  The loop \<^verbatim>\<open>for i, chunk in enumerate(text_chunks)\<close>: a chunk's file is appended to
  \<^verbatim>\<open>audio_files\<close> when there is one, and a chunk without a file is passed over.
\<close>

fun generate_chunks ::
  "voice_env \<Rightarrow> voice_state \<Rightarrow> voice_config \<Rightarrow> string \<Rightarrow> nat \<Rightarrow> string list \<Rightarrow> string list
     \<Rightarrow> exn + string list" where
  "generate_chunks env st voice_config language i [] audio_files = Inr audio_files"
| "generate_chunks env st voice_config language i (chunk # text_chunks) audio_files =
     and_then (generate_audio_chunk env st chunk voice_config language i) (\<lambda>audio_file.
       generate_chunks env st voice_config language (Suc i) text_chunks
         (case audio_file of None \<Rightarrow> audio_files | Some f \<Rightarrow> audio_files @ [f]))"

text \<open>\<^verbatim>\<open>audio_files[0] if audio_files else None\<close>.\<close>

definition first_or_None :: "string list \<Rightarrow> string option" where
  "first_or_None audio_files = (case audio_files of [] \<Rightarrow> None | f # _ \<Rightarrow> Some f)"

text \<open>
  \<^verbatim>\<open>_merge_audio_files\<close>: the merged file when \<^verbatim>\<open>ffmpeg\<close> returns 0, otherwise the
  first chunk's file (\<^verbatim>\<open>audio_files[0]\<close>, an \<^verbatim>\<open>IndexError\<close> on an empty list, which
  the handler turns into \<^verbatim>\<open>None\<close>).
\<close>

definition merge_audio_files :: "voice_env \<Rightarrow> voice_state \<Rightarrow> string list \<Rightarrow> string \<Rightarrow> exn + string option" where
  "merge_audio_files env st audio_files language =
     except_Exception
       (let output_filename = ''voice_'' @ language @ ''_'' @ timestamp env @ ''_final.mp3'';
            output_path = output_dir st @ ''/'' @ output_filename;
            file_list_path = output_dir st @ ''/'' @ ''filelist_'' @ timestamp env @ ''.txt''
        in and_then (ffmpeg_concat env audio_files output_path) (\<lambda>returncode.
           if returncode = 0 then
             and_then (unlink_files env (file_list_path # audio_files)) (\<lambda>_. Inr (Some output_path))
           else (case audio_files of
                   [] \<Rightarrow> Inl (Exception ''list index out of range'')
                 | f # _ \<Rightarrow> Inr (Some f))))
       (\<lambda>msg. Inr (first_or_None audio_files))"

text \<open>
  \<^verbatim>\<open>_create_silent_audio\<close>: thirty seconds of silence. The return code of \<^verbatim>\<open>ffmpeg\<close>
  is not looked at; when the process cannot be run at all the result is the empty
  string.
\<close>

definition create_silent_audio :: "voice_env \<Rightarrow> voice_state \<Rightarrow> string \<Rightarrow> exn + string" where
  "create_silent_audio env st language =
     except_Exception
       (let filename = ''voice_silent_'' @ language @ ''_'' @ timestamp env @ ''.mp3'';
            filepath = output_dir st @ ''/'' @ filename
        in and_then (ffmpeg_silence env 30 filepath) (\<lambda>_. Inr filepath))
       (\<lambda>msg. Inr [])"

definition gtts_lang_map :: "string \<rightharpoonup> string" where
  "gtts_lang_map = [''en'' \<mapsto> ''en'', ''de'' \<mapsto> ''de'', ''ko'' \<mapsto> ''ko'', ''zh'' \<mapsto> ''zh'']"

text \<open>\<^verbatim>\<open>_create_fallback_audio\<close>: the local synthesis of the whole text, else silence.\<close>

definition create_fallback_audio :: "voice_env \<Rightarrow> voice_state \<Rightarrow> string \<Rightarrow> string \<Rightarrow> exn + string" where
  "create_fallback_audio env st text language =
     except_Exception
       (let gtts_lang = dict_get gtts_lang_map language ''en'';
            filename = ''voice_fallback_'' @ language @ ''_'' @ timestamp env @ ''.mp3'';
            filepath = output_dir st @ ''/'' @ filename
        in and_then (gtts_save env text gtts_lang filepath) (\<lambda>_. Inr filepath))
       (\<lambda>msg. create_silent_audio env st language)"

text \<open>
  The first statements of the \<^verbatim>\<open>try\<close> block of \<^verbatim>\<open>create_voiceover\<close>.
  \<^verbatim>\<open>self.voice_configs.get(language, self.voice_configs['en'])\<close> evaluates its default
  first (a \<^verbatim>\<open>KeyError\<close> without an entry for \<^verbatim>\<open>'en'\<close>) and yields the object the
  table refers to, not a copy. The two statements that follow write into that object:
  \<^verbatim>\<open>voice_config['voice_id'] = custom_voice_id\<close> and
  \<^verbatim>\<open>voice_config.update(style_settings)\<close>, where \<^verbatim>\<open>style_settings\<close> is the object
  the preset table refers to. The result is the reference \<^verbatim>\<open>voice_config\<close> and the
  new state.
\<close>

definition select_voice_config ::
  "voice_state \<Rightarrow> string \<Rightarrow> string \<Rightarrow> string option \<Rightarrow> exn + (ref \<times> voice_state)" where
  "select_voice_config st language voice_style custom_voice_id =
     and_then (subscript (voice_configs st) ''en'') (\<lambda>en_config.
       let voice_config = dict_get (voice_configs st) language en_config;
           st = (case custom_voice_id of
                   None \<Rightarrow> st
                 | Some v \<Rightarrow>
                     if v \<noteq> [] then
                       st\<lparr>objects := (objects st)
                            (voice_config := (objects st voice_config)(''voice_id'' \<mapsto> CStr v))\<rparr>
                     else st);
           st = (case style_presets st voice_style of
                   None \<Rightarrow> st
                 | Some style_settings \<Rightarrow>
                     st\<lparr>objects := (objects st)
                          (voice_config := objects st voice_config ++ objects st style_settings)\<rparr>)
       in Inr (voice_config, st))"

text \<open>
  The rest of the \<^verbatim>\<open>try\<close> block: split, synthesise the chunks, merge. The result is
  \<^verbatim>\<open>final_audio\<close>.
\<close>

definition primary_audio ::
  "voice_env \<Rightarrow> voice_state \<Rightarrow> ref \<Rightarrow> string \<Rightarrow> string \<Rightarrow> exn + string option" where
  "primary_audio env st voice_config text language =
     and_then (generate_chunks env st (objects st voice_config) language 0
                 (split_text_for_tts text default_max_chars) []) (\<lambda>audio_files.
       if length audio_files > 1 then merge_audio_files env st audio_files language
       else Inr (first_or_None audio_files))"

text \<open>
  \<^verbatim>\<open>create_voiceover\<close>. The result is the returned string or the exception that
  leaves the method, together with the generator's state after the call.
\<close>

definition create_voiceover ::
  "voice_env \<Rightarrow> voice_state \<Rightarrow> string \<Rightarrow> string \<Rightarrow> string \<Rightarrow> string option
     \<Rightarrow> (exn + string) \<times> voice_state" where
  "create_voiceover env st text language voice_style custom_voice_id =
     (if \<not> truthy (api_key st) then (create_fallback_audio env st text language, st)
      else
        (case select_voice_config st language voice_style custom_voice_id of
           Inl (Exception msg) \<Rightarrow> (create_fallback_audio env st text language, st)
         | Inl (BaseExc msg) \<Rightarrow> (Inl (BaseExc msg), st)
         | Inr (voice_config, st') \<Rightarrow>
             (except_Exception
                (and_then (primary_audio env st' voice_config text language) (\<lambda>final_audio.
                   case final_audio of
                     Some path \<Rightarrow> Inr path
                   | None \<Rightarrow> create_fallback_audio env st' text language))
                (\<lambda>msg. create_fallback_audio env st' text language),
              st')))"

text \<open>
  \<^verbatim>\<open>get_voice_config\<close> hands out the object the table refers to, and
  \<^verbatim>\<open>update_voice_config\<close> either updates the object of a language that has an entry
  with the contents of the caller's dictionary, or makes the caller's dictionary object
  itself the entry of a new language.
\<close>

definition get_voice_config :: "voice_state \<Rightarrow> string \<Rightarrow> exn + ref" where
  "get_voice_config st language =
     and_then (subscript (voice_configs st) ''en'') (\<lambda>en_config.
       Inr (dict_get (voice_configs st) language en_config))"

definition update_voice_config :: "voice_state \<Rightarrow> string \<Rightarrow> ref \<Rightarrow> voice_state" where
  "update_voice_config st language config =
     (case voice_configs st language of
        Some r \<Rightarrow> st\<lparr>objects := (objects st)(r := objects st r ++ objects st config)\<rparr>
      | None \<Rightarrow> st\<lparr>voice_configs := (voice_configs st)(language \<mapsto> config)\<rparr>)"

text \<open>A short text, split with a limit of 20 characters.\<close>

definition short_text :: string where
  "short_text = ''Hello there. How are you.. Fine.  ok. ''"

text \<open>
  The primary tier delivers no audio: the API key is missing, or the \<^verbatim>\<open>try\<close> block
  raises an \<^verbatim>\<open>Exception\<close>, or \<^verbatim>\<open>final_audio\<close> is \<^verbatim>\<open>None\<close>.
\<close>

definition primary_failed ::
  "voice_env \<Rightarrow> voice_state \<Rightarrow> string \<Rightarrow> string \<Rightarrow> string \<Rightarrow> string option \<Rightarrow> bool" where
  "primary_failed env st text language voice_style custom_voice_id =
     (\<not> truthy (api_key st) \<or>
      (case select_voice_config st language voice_style custom_voice_id of
         Inl (Exception msg) \<Rightarrow> True
       | Inl (BaseExc msg) \<Rightarrow> False
       | Inr (voice_config, st') \<Rightarrow>
           (case primary_audio env st' voice_config text language of
              Inl (Exception msg) \<Rightarrow> True
            | Inl (BaseExc msg) \<Rightarrow> False
            | Inr None \<Rightarrow> True
            | Inr (Some path) \<Rightarrow> False)))"

text \<open>The value read under a key of a language's configuration.\<close>

definition config_value :: "voice_state \<Rightarrow> string \<Rightarrow> string \<Rightarrow> cfg_value option" where
  "config_value st language k =
     (case voice_configs st language of None \<Rightarrow> None | Some r \<Rightarrow> objects st r k)"

text \<open>
  The object the two writes of \<^verbatim>\<open>create_voiceover\<close> go to: the one the entry of the
  language refers to, or the entry of \<^verbatim>\<open>'en'\<close> when the language has none.
\<close>

definition selected_object :: "voice_state \<Rightarrow> string \<Rightarrow> ref option" where
  "selected_object st language =
     (case voice_configs st language of None \<Rightarrow> voice_configs st ''en'' | Some r \<Rightarrow> Some r)"

text \<open>
  Two environments. In the first nothing works: no network, no \<^verbatim>\<open>gtts\<close> module, no
  \<^verbatim>\<open>ffmpeg\<close> binary. In the second the service answers 200 to a text that starts with
  the letter a and 500 to any other, and everything else works.
\<close>

definition offline_env :: voice_env where
  "offline_env =
     \<lparr>post_tts = (\<lambda>base voice key payload. Inl (Exception ''Cannot connect to host'')),
      save_response = (\<lambda>path. Inr ()),
      ffmpeg_concat = (\<lambda>files out. Inl (Exception ''No such file or directory: ffmpeg'')),
      unlink_files = (\<lambda>files. Inr ()),
      gtts_save = (\<lambda>text lang path. Inl (Exception ''No module named gtts'')),
      ffmpeg_silence = (\<lambda>seconds path. Inl (Exception ''No such file or directory: ffmpeg'')),
      timestamp = ''20250101_120000''\<rparr>"

definition flaky_env :: voice_env where
  "flaky_env =
     \<lparr>post_tts = (\<lambda>base voice key payload.
                   if hd (payload_text payload) = CHR ''a'' then Inr 200 else Inr 500),
      save_response = (\<lambda>path. Inr ()),
      ffmpeg_concat = (\<lambda>files out. Inr 0),
      unlink_files = (\<lambda>files. Inr ()),
      gtts_save = (\<lambda>text lang path. Inr ()),
      ffmpeg_silence = (\<lambda>seconds path. Inr 0),
      timestamp = ''20250101_120000''\<rparr>"

text \<open>An environment without the secondary provider, but with \<^verbatim>\<open>ffmpeg\<close>.\<close>

definition silent_env :: voice_env where
  "silent_env = offline_env\<lparr>ffmpeg_silence := (\<lambda>seconds path. Inr 0)\<rparr>"

text \<open>The second environment with an \<^verbatim>\<open>ffmpeg\<close> that fails to merge.\<close>

definition unmerged_env :: voice_env where
  "unmerged_env = flaky_env\<lparr>ffmpeg_concat := (\<lambda>files out. Inr 1)\<rparr>"

text \<open>A text of three sentences of 1500 characters each.\<close>

definition three_sentences :: string where
  "three_sentences =
     replicate 1500 CHR ''a'' @ ''. '' @ replicate 1500 CHR ''b'' @ ''. ''
       @ replicate 1500 CHR ''a''"

text \<open>
  A state in which a caller has registered one dictionary object, number 9, for two
  new languages with \<^verbatim>\<open>update_voice_config\<close>.
\<close>

definition shared_state :: voice_state where
  "shared_state =
     update_voice_config
       (update_voice_config
          ((init_voice_state (Some ''key''))
             \<lparr>objects := init_objects(9 := language_config ''custom'' (5 / 10) (8 / 10) 0)\<rparr>)
          ''es'' 9)
       ''fr'' 9"

section \<open>The stage pipeline (SEALVideoAutomation)\<close>

text \<open>
  A script is a dictionary; its values are strings, numbers, lists and \<^verbatim>\<open>None\<close>.
\<close>

datatype py_value = PStr string | PNum rat | PList "py_value list" | PNone

type_synonym script_data = "string \<rightharpoonup> py_value"

text \<open>
  The entry \<^verbatim>\<open>results[lang]\<close>: the artifacts of the language, or
  \<^verbatim>\<open>{'error': str(e)}\<close>.
\<close>

record artifacts =
  script :: script_data
  audio_path :: string
  video_path :: string
  upload_results :: string
  created_at :: string

datatype topic_result = Artifacts artifacts | ErrorRecord string

text \<open>
  A dictionary keyed by language, in insertion order: an assignment to a key that is
  present replaces its value in place, a new key goes to the end
  (\<^const>\<open>AList.update\<close>).
\<close>

type_synonym results = "(string \<times> topic_result) list"

text \<open>
  The collaborators of the pipeline: script generator, affiliate manager, voiceover
  generator, video creator, uploader, feedback collector, and the clock. Each call
  runs in the state \<open>'w\<close> of the world and leaves a new one; it returns or raises.
\<close>

record 'w collaborators =
  generate_script ::
    "string \<Rightarrow> string \<Rightarrow> string \<Rightarrow> TrendTopic option \<Rightarrow> 'w \<Rightarrow> (exn + script_data) \<times> 'w"
  add_affiliate_content :: "script_data \<Rightarrow> string \<Rightarrow> 'w \<Rightarrow> (exn + script_data) \<times> 'w"
  voiceover :: "py_value \<Rightarrow> string \<Rightarrow> py_value \<Rightarrow> 'w \<Rightarrow> (exn + string) \<times> 'w"
  create_video :: "script_data \<Rightarrow> string \<Rightarrow> string \<Rightarrow> string \<Rightarrow> 'w \<Rightarrow> (exn + string) \<times> 'w"
  upload_video :: "string \<Rightarrow> script_data \<Rightarrow> string \<Rightarrow> 'w \<Rightarrow> (exn + string) \<times> 'w"
  collect_video_metrics :: "string \<Rightarrow> script_data \<Rightarrow> 'w \<Rightarrow> (exn + unit) \<times> 'w"
  sleep :: "nat \<Rightarrow> 'w \<Rightarrow> (exn + unit) \<times> 'w"
  now_isoformat :: "'w \<Rightarrow> string"

text \<open>Sequencing of calls in the world: an exception of the first skips the rest.\<close>

definition then_do ::
  "('w \<Rightarrow> (exn + 'a) \<times> 'w) \<Rightarrow> ('a \<Rightarrow> 'w \<Rightarrow> (exn + 'b) \<times> 'w) \<Rightarrow> 'w \<Rightarrow> (exn + 'b) \<times> 'w" where
  "then_do step rest w = (case step w of (Inl e, w') \<Rightarrow> (Inl e, w') | (Inr v, w') \<Rightarrow> rest v w')"

definition pure_step :: "exn + 'a \<Rightarrow> 'w \<Rightarrow> (exn + 'a) \<times> 'w" where
  "pure_step r w = (r, w)"

text \<open>
  The body of the \<^verbatim>\<open>try\<close> block of \<^verbatim>\<open>create_video_content\<close> for one language: script,
  affiliate content, voiceover, video, upload, and the entry for \<^verbatim>\<open>results[lang]\<close>.
\<close>

definition run_language ::
  "'w collaborators \<Rightarrow> string \<Rightarrow> string \<Rightarrow> bool \<Rightarrow> TrendTopic option \<Rightarrow> string \<Rightarrow> 'w
     \<Rightarrow> (exn + artifacts) \<times> 'w" where
  "run_language c topic categ include_affiliates trend_data lang =
     then_do (generate_script c topic lang categ trend_data) (\<lambda>script_data.
     then_do (if include_affiliates then add_affiliate_content c script_data categ
              else pure_step (Inr script_data)) (\<lambda>script_data.
     then_do (pure_step (subscript script_data ''content'')) (\<lambda>content.
     then_do (voiceover c content lang
                (dict_get script_data ''voice_style'' (PStr ''professional''))) (\<lambda>audio_path.
     then_do (create_video c script_data audio_path lang categ) (\<lambda>video_path.
     then_do (upload_video c video_path script_data lang) (\<lambda>upload_results.
       (\<lambda>w. (Inr \<lparr>script = script_data, audio_path = audio_path, video_path = video_path,
                    upload_results = upload_results, created_at = now_isoformat c w\<rparr>, w))))))))"

text \<open>
  The loop \<^verbatim>\<open>for lang in languages\<close> with its \<^verbatim>\<open>try\<close>/\<^verbatim>\<open>except Exception\<close>.
\<close>

fun language_loop ::
  "'w collaborators \<Rightarrow> string \<Rightarrow> string \<Rightarrow> bool \<Rightarrow> TrendTopic option \<Rightarrow> string list \<Rightarrow> results
     \<Rightarrow> 'w \<Rightarrow> (exn + results) \<times> 'w" where
  "language_loop c topic categ include_affiliates trend_data [] results w = (Inr results, w)"
| "language_loop c topic categ include_affiliates trend_data (lang # languages) results w =
     (case run_language c topic categ include_affiliates trend_data lang w of
        (Inr a, w') \<Rightarrow>
          language_loop c topic categ include_affiliates trend_data languages
            (AList.update lang (Artifacts a) results) w'
      | (Inl (Exception msg), w') \<Rightarrow>
          language_loop c topic categ include_affiliates trend_data languages
            (AList.update lang (ErrorRecord msg) results) w'
      | (Inl (BaseExc cls), w') \<Rightarrow> (Inl (BaseExc cls), w'))"

definition create_video_content ::
  "'w collaborators \<Rightarrow> string \<Rightarrow> string \<Rightarrow> string list option \<Rightarrow> bool \<Rightarrow> TrendTopic option \<Rightarrow> 'w
     \<Rightarrow> (exn + results) \<times> 'w" where
  "create_video_content c topic categ languages include_affiliates trend_data w =
     language_loop c topic categ include_affiliates trend_data
       (case languages of None \<Rightarrow> [''en''] | Some ls \<Rightarrow> ls) [] w"

text \<open>
  What each language's pipeline does when the languages are run one after the other,
  each in the world its predecessor left: the outcomes in order. It serves to state
  what the loop collects.
\<close>

fun language_runs ::
  "'w collaborators \<Rightarrow> string \<Rightarrow> string \<Rightarrow> bool \<Rightarrow> TrendTopic option \<Rightarrow> string list \<Rightarrow> 'w
     \<Rightarrow> (string \<times> (exn + artifacts)) list" where
  "language_runs c topic categ include_affiliates trend_data [] w = []"
| "language_runs c topic categ include_affiliates trend_data (lang # languages) w =
     (case run_language c topic categ include_affiliates trend_data lang w of
        (r, w') \<Rightarrow>
          (lang, r) # language_runs c topic categ include_affiliates trend_data languages w')"

definition is_interrupt :: "exn + 'a \<Rightarrow> bool" where
  "is_interrupt r = (case r of Inl (BaseExc cls) \<Rightarrow> True | _ \<Rightarrow> False)"

fun str_exn :: "exn \<Rightarrow> string" where
  "str_exn (Exception msg) = msg"
| "str_exn (BaseExc cls) = cls"

definition entry_of :: "exn + artifacts \<Rightarrow> topic_result" where
  "entry_of r = (case r of Inr a \<Rightarrow> Artifacts a | Inl e \<Rightarrow> ErrorRecord (str_exn e))"

definition is_error :: "string \<times> topic_result \<Rightarrow> bool" where
  "is_error entry = (case snd entry of ErrorRecord msg \<Rightarrow> True | Artifacts a \<Rightarrow> False)"

section \<open>Deferred feedback collection\<close>

text \<open>What \<^verbatim>\<open>collect_feedback_for_videos\<close> does, in order.\<close>

datatype event = Slept nat | MetricsCall string | LoggedError string

text \<open>
  The inner loop \<^verbatim>\<open>for lang, data in result.items()\<close>: the collector is called for
  an entry that has \<^verbatim>\<open>upload_results\<close>. Nothing is caught here.
\<close>

fun collect_items ::
  "'w collaborators \<Rightarrow> results \<Rightarrow> event list \<Rightarrow> 'w \<Rightarrow> (exn + unit) \<times> event list \<times> 'w" where
  "collect_items c [] trace w = (Inr (), trace, w)"
| "collect_items c ((lang, Artifacts a) # items) trace w =
     (case collect_video_metrics c (upload_results a) (script a) w of
        (Inr u, w') \<Rightarrow> collect_items c items (trace @ [MetricsCall (upload_results a)]) w'
      | (Inl e, w') \<Rightarrow> (Inl e, trace @ [MetricsCall (upload_results a)], w'))"
| "collect_items c ((lang, ErrorRecord msg) # items) trace w = collect_items c items trace w"

text \<open>
  The outer loop \<^verbatim>\<open>for result in results\<close>: the \<^verbatim>\<open>try\<close> block holds the whole inner
  loop, and its handler logs the \<^verbatim>\<open>Exception\<close>.
\<close>

fun collect_results ::
  "'w collaborators \<Rightarrow> results list \<Rightarrow> event list \<Rightarrow> 'w \<Rightarrow> (exn + unit) \<times> event list \<times> 'w" where
  "collect_results c [] trace w = (Inr (), trace, w)"
| "collect_results c (result # results) trace w =
     (case collect_items c result trace w of
        (Inr u, trace', w') \<Rightarrow> collect_results c results trace' w'
      | (Inl (Exception msg), trace', w') \<Rightarrow>
          collect_results c results (trace' @ [LoggedError msg]) w'
      | (Inl (BaseExc cls), trace', w') \<Rightarrow> (Inl (BaseExc cls), trace', w'))"

definition collect_feedback_for_videos ::
  "'w collaborators \<Rightarrow> results list \<Rightarrow> 'w \<Rightarrow> (exn + unit) \<times> event list \<times> 'w" where
  "collect_feedback_for_videos c results w =
     (case sleep c 7200 w of
        (Inl e, w') \<Rightarrow> (Inl e, [], w')
      | (Inr u, w') \<Rightarrow> collect_results c results [Slept 7200] w')"




text \<open>
  Sample collaborators. The world counts the calls made so far, and the clock shows
  that count as a tally. A script is generated for the topic and the language, the
  affiliate manager adds an entry, the voiceover needs a text and names its file after
  the language and the style, the video is named after the audio file and the upload
  after the video. The voiceover fails for the languages of \<open>no_voice\<close>, the metrics
  collector for the uploads of \<open>no_metrics\<close>.
\<close>

definition sample_script :: "string \<Rightarrow> string \<Rightarrow> script_data" where
  "sample_script topic lang =
     [''topic'' \<mapsto> PStr topic, ''language'' \<mapsto> PStr lang,
      ''content'' \<mapsto> PStr ''Hello. Thanks for watching!'',
      ''voice_style'' \<mapsto> PStr ''calm'']"

definition sample_collaborators :: "string list \<Rightarrow> string list \<Rightarrow> nat collaborators" where
  "sample_collaborators no_voice no_metrics =
     \<lparr>generate_script = (\<lambda>topic lang categ trend_data w. (Inr (sample_script topic lang), Suc w)),
      add_affiliate_content = (\<lambda>script_data categ w.
         (Inr (script_data(''affiliate'' \<mapsto> PStr categ)), Suc w)),
      voiceover = (\<lambda>content lang voice_style w.
         if lang \<in> set no_voice then (Inl (Exception ''voice service unavailable''), Suc w)
         else (case (content, voice_style) of
                 (PStr text, PStr style) \<Rightarrow> (Inr (''voice_'' @ lang @ ''_'' @ style), Suc w)
               | _ \<Rightarrow> (Inl (Exception ''not a text''), Suc w))),
      create_video = (\<lambda>script_data audio lang categ w. (Inr (''video_of_'' @ audio), Suc w)),
      upload_video = (\<lambda>video script_data lang w. (Inr (''upload_of_'' @ video), Suc w)),
      collect_video_metrics = (\<lambda>upload script_data w.
         if upload \<in> set no_metrics then (Inl (Exception ''metrics unavailable''), Suc w)
         else (Inr (), Suc w)),
      sleep = (\<lambda>seconds w. (Inr (), Suc w)),
      now_isoformat = (\<lambda>w. replicate w CHR ''|'')\<rparr>"

text \<open>
  The artifacts the sample collaborators make for a language, with affiliate content,
  when the upload returns in the world \<open>w\<close>.
\<close>

definition sample_artifacts :: "string \<Rightarrow> string \<Rightarrow> string \<Rightarrow> nat \<Rightarrow> artifacts" where
  "sample_artifacts topic categ lang w =
     \<lparr>script = (sample_script topic lang)(''affiliate'' \<mapsto> PStr categ),
      audio_path = ''voice_'' @ lang @ ''_calm'',
      video_path = ''video_of_voice_'' @ lang @ ''_calm'',
      upload_results = ''upload_of_video_of_voice_'' @ lang @ ''_calm'',
      created_at = replicate w CHR ''|''\<rparr>"

section \<open>The automation cycle and the automatic mode\<close>

text \<open>The lines written to the log by \<^verbatim>\<open>run_automation_cycle\<close> and \<^verbatim>\<open>main\<close>.\<close>

datatype log_entry =
    AutoModeStarted
  | CycleStarted
  | CycleCompleted nat
  | CycleError string
  | StoppedByUser
  | CriticalError string

text \<open>
  \<^verbatim>\<open>run_automation_cycle\<close>. The body of its \<^verbatim>\<open>try\<close> block (reading the daily count,
  \<^verbatim>\<open>generate_trending_content\<close>, starting the feedback task) is \<open>body\<close>, run in the
  world. The handler logs an \<^verbatim>\<open>Exception\<close> and raises it again.
\<close>

definition run_automation_cycle ::
  "('w \<Rightarrow> (exn + results list) \<times> 'w) \<Rightarrow> log_entry list \<Rightarrow> 'w
     \<Rightarrow> (exn + results list) \<times> log_entry list \<times> 'w" where
  "run_automation_cycle body logged w =
     (case body w of
        (Inr results, w') \<Rightarrow>
          (Inr results, logged @ [CycleStarted, CycleCompleted (length results)], w')
      | (Inl (Exception msg), w') \<Rightarrow>
          (Inl (Exception msg), logged @ [CycleStarted, CycleError msg], w')
      | (Inl (BaseExc cls), w') \<Rightarrow> (Inl (BaseExc cls), logged @ [CycleStarted], w'))"

text \<open>
  The loop \<^verbatim>\<open>while True\<close> of the automatic mode: a cycle, then a sleep of 86400
  seconds. The loop has no exit of its own; \<open>fuel\<close> bounds the number of iterations
  that are followed. The result is the exception that left the loop, or \<open>None\<close>
  when the loop is still running after \<open>fuel\<close> iterations, with the number of cycles
  started, the log and the world.
\<close>

fun auto_loop ::
  "('w \<Rightarrow> (exn + results list) \<times> 'w) \<Rightarrow> (nat \<Rightarrow> 'w \<Rightarrow> (exn + unit) \<times> 'w) \<Rightarrow> nat \<Rightarrow> nat
     \<Rightarrow> log_entry list \<Rightarrow> 'w \<Rightarrow> exn option \<times> nat \<times> log_entry list \<times> 'w" where
  "auto_loop body sleeping 0 started logged w = (None, started, logged, w)"
| "auto_loop body sleeping (Suc fuel) started logged w =
     (case run_automation_cycle body logged w of
        (Inl e, logged', w') \<Rightarrow> (Some e, Suc started, logged', w')
      | (Inr results, logged', w') \<Rightarrow>
          (case sleeping 86400 w' of
             (Inl e, w'') \<Rightarrow> (Some e, Suc started, logged', w'')
           | (Inr u, w'') \<Rightarrow> auto_loop body sleeping fuel (Suc started) logged' w''))"

text \<open>
  What becomes of the process: it is still running, it has exited with a status, or
  an exception of the given class has left \<^verbatim>\<open>main\<close>.
\<close>

datatype process = StillRunning | Exited int | Escaped string

text \<open>
  \<^verbatim>\<open>main\<close> with \<^verbatim>\<open>--auto-mode\<close>: the loop stands in the \<^verbatim>\<open>try\<close> block whose
  handlers are \<^verbatim>\<open>except KeyboardInterrupt\<close> (log, then return) and
  \<^verbatim>\<open>except Exception\<close> (log, then \<^verbatim>\<open>sys.exit(1)\<close>).
\<close>

definition main_auto_mode ::
  "('w \<Rightarrow> (exn + results list) \<times> 'w) \<Rightarrow> (nat \<Rightarrow> 'w \<Rightarrow> (exn + unit) \<times> 'w) \<Rightarrow> nat \<Rightarrow> 'w
     \<Rightarrow> process \<times> nat \<times> log_entry list" where
  "main_auto_mode body sleeping fuel w =
     (case auto_loop body sleeping fuel 0 [AutoModeStarted] w of
        (None, started, logged, w') \<Rightarrow> (StillRunning, started, logged)
      | (Some (Exception msg), started, logged, w') \<Rightarrow>
          (Exited 1, started, logged @ [CriticalError msg])
      | (Some (BaseExc cls), started, logged, w') \<Rightarrow>
          (if cls = ''KeyboardInterrupt'' then (Exited 0, started, logged @ [StoppedByUser])
           else (Escaped cls, started, logged)))"

text \<open>
  A sample run: the world counts the cycles; the cycle's body raises in the cycle
  numbered \<open>bad\<close> and returns an empty list of results in every other cycle; sleeping
  always returns.
\<close>

definition sample_body :: "nat \<Rightarrow> nat \<Rightarrow> (exn + results list) \<times> nat" where
  "sample_body bad w =
     (if w = bad then (Inl (Exception ''ranking crashed''), Suc w) else (Inr [], Suc w))"

definition sample_sleeping :: "nat \<Rightarrow> nat \<Rightarrow> (exn + unit) \<times> nat" where
  "sample_sleeping seconds w = (Inr (), w)"

section \<open>Properties of the ranking\<close>

lemma sorted_reverse_descending:
  "sorted_wrt (\<lambda>a b. key b \<le> key a) (sorted_reverse key xs)"
proof -
  have "sorted (map (\<lambda>x. - key x) (sorted_reverse key xs))"
    unfolding sorted_reverse_def by (rule sorted_sort_key)
  then show ?thesis by (simp add: sorted_map)
qed

lemma sorted_reverse_stable:
  "filter (\<lambda>x. key x = k) (sorted_reverse key xs) = filter (\<lambda>x. key x = k) xs"
proof -
  have "filter (\<lambda>x. - key x = - k) (sort_key (\<lambda>x. - key x) xs)
        = filter (\<lambda>x. - key x = - k) xs"
    by (rule sort_key_stable)
  then show ?thesis by (simp add: sorted_reverse_def)
qed

lemma mset_sorted_reverse: "mset (sorted_reverse key xs) = mset xs"
  by (simp add: sorted_reverse_def)

lemma length_sorted_reverse: "length (sorted_reverse key xs) = length xs"
  by (simp add: sorted_reverse_def)

lemma insort_key_map_commute:
  "insort_key f (g x) (map g xs) = map g (insort_key (\<lambda>x. f (g x)) x xs)"
  by (induction xs) auto

lemma sort_key_map_commute: "sort_key f (map g xs) = map g (sort_key (\<lambda>x. f (g x)) xs)"
  by (induction xs) (auto simp: insort_key_map_commute)

lemma sorted_reverse_map: "sorted_reverse key (map g xs) = map g (sorted_reverse (\<lambda>x. key (g x)) xs)"
  by (simp add: sorted_reverse_def sort_key_map_commute)

lemma score_loop_notin: "r \<notin> set rs \<Longrightarrow> score_loop rs h r = h r"
  by (induction rs arbitrary: h) auto

lemma score_loop_frame:
  "score_loop rs h r = (h r)\<lparr>confidence_score := confidence_score (score_loop rs h r)\<rparr>"
proof (induction rs arbitrary: h)
  case Nil
  show ?case by simp
next
  case (Cons a rs)
  let ?h = "h(a := score_trend (h a))"
  have "score_loop rs ?h r = (?h r)\<lparr>confidence_score := confidence_score (score_loop rs ?h r)\<rparr>"
    by (rule Cons.IH)
  moreover have "\<And>c. (?h r)\<lparr>confidence_score := c\<rparr> = (h r)\<lparr>confidence_score := c\<rparr>"
    by (simp add: score_trend_def Let_def)
  ultimately show ?case by simp
qed

lemma score_loop_distinct:
  "distinct rs \<Longrightarrow> r \<in> set rs \<Longrightarrow> score_loop rs h r = score_trend (h r)"
proof (induction rs arbitrary: h)
  case Nil
  then show ?case by simp
next
  case (Cons a rs)
  show ?case
  proof (cases "r = a")
    case True
    with Cons.prems have "r \<notin> set rs" by simp
    then show ?thesis using True by (simp add: score_loop_notin)
  next
    case False
    with Cons.prems have "distinct rs" "r \<in> set rs" by auto
    then show ?thesis using False Cons.IH by simp
  qed
qed

lemma map_slice_to: "map f (slice_to xs n) = slice_to (map f xs) n"
  by (simp add: slice_to_def take_map)

lemma sorted_wrt_slice_to: "sorted_wrt R xs \<Longrightarrow> sorted_wrt R (slice_to xs n)"
  by (simp add: slice_to_def sorted_wrt_take)

text \<open>
  On the fresh objects of \<^verbatim>\<open>get_trending_topics\<close> the ranking is the stable descending
  sort of the scored topics, cut to the requested number.
\<close>

lemma get_trending_topics_eq:
  "get_trending_topics g y r n =
     slice_to (sorted_reverse confidence_score
                 (map score_trend (extend_all_trends [g, y, r] []))) n"
proof -
  define all_trends where "all_trends = extend_all_trends [g, y, r] []"
  define h' where "h' = score_loop [0 ..< length all_trends] (\<lambda>r. all_trends ! r)"
  have "map h' [0 ..< length all_trends] = map (\<lambda>i. score_trend (all_trends ! i)) [0 ..< length all_trends]"
    by (rule map_cong) (simp_all add: h'_def score_loop_distinct)
  also have "\<dots> = map score_trend all_trends"
    by (simp add: map_nth flip: map_map [unfolded comp_def])
  finally have m: "map h' [0 ..< length all_trends] = map score_trend all_trends" .
  have "get_trending_topics g y r n =
          map h' (slice_to (sorted_reverse (\<lambda>r. confidence_score (h' r)) [0 ..< length all_trends]) n)"
    by (simp add: get_trending_topics_def score_and_rank_trends_def Let_def
        all_trends_def h'_def)
  also have "\<dots> = slice_to (sorted_reverse confidence_score (map h' [0 ..< length all_trends])) n"
    by (simp add: map_slice_to sorted_reverse_map)
  finally have "get_trending_topics g y r n =
     slice_to (sorted_reverse confidence_score (map score_trend all_trends)) n"
    by (simp only: m)
  then show ?thesis by (simp only: all_trends_def)
qed

text \<open>
  C1 (as amended). The ranked list is in descending order of the final score; among
  topics with equal score the order of the input list is kept, whatever their sources
  are; and the list \<^verbatim>\<open>get_trending_topics\<close> returns is in descending order of
  score too. No source priority enters the order.
\<close>

theorem rank_descending_stable:
  "(case score_and_rank_trends trends h of (ranked, h') \<Rightarrow>
      sorted_wrt (\<lambda>a b. confidence_score (h' b) \<le> confidence_score (h' a)) ranked
      \<and> filter (\<lambda>r. confidence_score (h' r) = s) ranked
          = filter (\<lambda>r. confidence_score (h' r) = s) trends
      \<and> mset ranked = mset trends)
   \<and> sorted_wrt (\<lambda>a b. confidence_score b \<le> confidence_score a)
        (get_trending_topics google_trends youtube reddit n)
   \<and> get_trending_topics google_trends youtube reddit n =
        slice_to (sorted_reverse confidence_score
          (map score_trend (extend_all_trends [google_trends, youtube, reddit] []))) n"
proof -
  have "sorted_wrt (\<lambda>a b. confidence_score b \<le> confidence_score a)
          (get_trending_topics google_trends youtube reddit n)"
    unfolding get_trending_topics_eq
    by (rule sorted_wrt_slice_to) (rule sorted_reverse_descending)
  then show ?thesis
    by (simp add: score_and_rank_trends_def Let_def sorted_reverse_descending
        sorted_reverse_stable mset_sorted_reverse get_trending_topics_eq)
qed

text \<open>
  C1, counterexample. A Google Trends topic and a YouTube topic both reach the clamped
  score 1; the Google Trends topic was discovered first and stays first, although
  \<^verbatim>\<open>youtube\<close> is the source of higher priority.
\<close>

theorem rank_source_priority_counterexample:
  "map source (get_trending_topics (Inr [google_topic]) (Inr [youtube_topic]) (Inr []) 2)
     = [''google_trends'', ''youtube'']
   \<and> map confidence_score
        (get_trending_topics (Inr [google_topic]) (Inr [youtube_topic]) (Inr []) 2) = [1, 1]"
  by (simp add: get_trending_topics_def score_and_rank_trends_def sorted_reverse_def
      slice_to_def score_trend_def google_topic_def youtube_topic_def dict_get_def
      category_bonus_def source_bonus_def upt_rec)

text \<open>
  C5 (as amended). Ranking changes no field of any topic other than
  \<^verbatim>\<open>confidence_score\<close>: after the call every object equals its old value with the
  confidence score replaced. For a list of distinct objects the new confidence score of
  a listed topic is its final score, written into the topic itself.
\<close>

theorem rank_frame:
  "snd (score_and_rank_trends trends h) r =
     (h r)\<lparr>confidence_score := confidence_score (snd (score_and_rank_trends trends h) r)\<rparr>
   \<and> (distinct trends \<and> r \<in> set trends \<longrightarrow>
        snd (score_and_rank_trends trends h) r = score_trend (h r))
   \<and> (r \<notin> set trends \<longrightarrow> snd (score_and_rank_trends trends h) r = h r)"
proof -
  have "score_loop trends h r = (h r)\<lparr>confidence_score := confidence_score (score_loop trends h r)\<rparr>"
    by (rule score_loop_frame)
  then show ?thesis
    by (simp add: score_and_rank_trends_def Let_def score_loop_distinct score_loop_notin)
qed

theorem rank_frame_witness:
  "distinct [0::nat] \<and> (0::nat) \<in> set [0]
   \<and> snd (score_and_rank_trends [0] (\<lambda>r. youtube_topic)) 0 = youtube_topic\<lparr>confidence_score := 1\<rparr>
   \<and> (1::nat) \<notin> set [0]
   \<and> snd (score_and_rank_trends [0] (\<lambda>r. youtube_topic)) 1 = youtube_topic"
  using rank_frame [of "[0]" "\<lambda>r. youtube_topic" 0] rank_frame [of "[0]" "\<lambda>r. youtube_topic" 1]
  by (simp add: score_trend_def youtube_topic_def dict_get_def category_bonus_def source_bonus_def)

text \<open>
  C5, counterexample. The score is written back: the YouTube topic enters the ranking
  with confidence 0.8 and leaves it with confidence 1.
\<close>

theorem rank_mutates_confidence_counterexample:
  "confidence_score youtube_topic = 8 / 10
   \<and> confidence_score (snd (score_and_rank_trends [0] (\<lambda>r. youtube_topic)) 0) = 1"
  by (simp add: score_and_rank_trends_def score_trend_def youtube_topic_def dict_get_def
      category_bonus_def source_bonus_def)

text \<open>
  C7 (as amended). The ranking is total on lists of topics and drops nothing: the ranked
  list is a permutation of the input list, so it has the input's length, and
  \<^verbatim>\<open>get_trending_topics\<close> returns a topic for every topic the sources delivered (up to
  the cut). The title is never read and there is no count of skipped topics.
\<close>

theorem rank_drops_nothing:
  "mset (fst (score_and_rank_trends trends h)) = mset trends
   \<and> length (fst (score_and_rank_trends trends h)) = length trends
   \<and> length (get_trending_topics google_trends youtube reddit (int (length
        (extend_all_trends [google_trends, youtube, reddit] []))))
      = length (extend_all_trends [google_trends, youtube, reddit] [])"
  by (simp add: score_and_rank_trends_def Let_def mset_sorted_reverse length_sorted_reverse
      get_trending_topics_eq slice_to_def)

text \<open>
  C7, counterexample. A topic whose title is empty is ranked like any other: the result
  has length 1 and holds that topic.
\<close>

theorem rank_keeps_untitled_counterexample:
  "title untitled_topic = []
   \<and> length (get_trending_topics (Inr []) (Inr []) (Inr [untitled_topic]) 5) = 1
   \<and> map title (get_trending_topics (Inr []) (Inr []) (Inr [untitled_topic]) 5) = [[]]"
  by (simp add: get_trending_topics_def score_and_rank_trends_def sorted_reverse_def
      slice_to_def score_trend_def untitled_topic_def dict_get_def
      category_bonus_def source_bonus_def)

section \<open>Properties of the text splitting\<close>

lemma split_sentences_nonempty: "split_sentences s \<noteq> []"
  by (induction s rule: split_sentences.induct) (auto split: list.splits)

lemma split_sentences_nodot: "CHR ''.'' \<notin> set s \<Longrightarrow> split_sentences s = [s]"
  by (induction s rule: split_sentences.induct) auto

lemma split_sentences_append:
  "CHR ''.'' \<notin> set s \<Longrightarrow>
   split_sentences (s @ CHR ''.'' # CHR '' '' # t) = s # split_sentences t"
proof (induction s)
  case Nil
  then show ?case by simp
next
  case (Cons c s)
  then have c: "c \<noteq> CHR ''.''"
    and IH: "split_sentences (s @ CHR ''.'' # CHR '' '' # t) = s # split_sentences t"
    by auto
  obtain d ds where "s @ CHR ''.'' # CHR '' '' # t = d # ds"
    by (cases "s @ CHR ''.'' # CHR '' '' # t") auto
  then show ?case using c IH by simp
qed

text \<open>Joining the sentences with the separator gives the text back.\<close>

lemma concat_split_sentences:
  "concat (map (\<lambda>s. s @ ''. '') (split_sentences t)) = t @ ''. ''"
proof (induction t rule: split_sentences.induct)
  case 1
  show ?case by simp
next
  case (2 c)
  show ?case by simp
next
  case (3 c d cs)
  show ?case
  proof (cases "c = CHR ''.'' \<and> d = CHR '' ''")
    case True
    then show ?thesis using 3 by simp
  next
    case False
    then show ?thesis using 3 split_sentences_nonempty [of "d # cs"]
      by (auto split: list.splits)
  qed
qed

lemma length_strip: "length (strip s) \<le> length s"
proof -
  have "length (dropWhile isspace (rev (dropWhile isspace s)))
        \<le> length (rev (dropWhile isspace s))"
    by (rule length_dropWhile_le)
  also have "\<dots> \<le> length s" by (simp add: length_dropWhile_le)
  finally show ?thesis by (simp add: strip_def)
qed

lemma split_loop_unstripped:
  "split_loop m ss (map strip ps) cur = map strip (unstripped_loop m ss ps cur)"
proof (induction ss arbitrary: ps cur)
  case Nil
  show ?case by simp
next
  case (Cons s ss)
  have "split_loop m ss (map strip (ps @ [cur])) (s @ ''. '')
        = map strip (unstripped_loop m ss (ps @ [cur]) (s @ ''. ''))"
    by (rule Cons.IH)
  then show ?case using Cons.IH [of ps] by simp
qed

lemma concat_unstripped_loop:
  "concat (unstripped_loop m ss ps cur) = concat ps @ cur @ concat (map (\<lambda>s. s @ ''. '') ss)"
  by (induction ss arbitrary: ps cur) auto

lemma unstripped_loop_bounded:
  "\<forall>p \<in> set ps. int (length p) \<le> m \<Longrightarrow> cur = [] \<or> int (length cur) \<le> m \<Longrightarrow>
   \<forall>s \<in> set ss. int (length s) + 2 \<le> m \<Longrightarrow>
   \<forall>p \<in> set (unstripped_loop m ss ps cur). int (length p) \<le> m"
proof (induction ss arbitrary: ps cur)
  case Nil
  then show ?case by auto
next
  case (Cons s ss)
  have s: "int (length s) + 2 \<le> m" and ss: "\<forall>s \<in> set ss. int (length s) + 2 \<le> m"
    using Cons.prems(3) by auto
  show ?case
  proof (cases "int (length (cur @ s @ ''. '')) \<le> m")
    case True
    have "\<forall>p \<in> set (unstripped_loop m ss ps (cur @ s @ ''. '')). int (length p) \<le> m"
      using Cons.prems(1) True ss by (intro Cons.IH) auto
    then show ?thesis using True by simp
  next
    case False
    let ?ps = "if cur \<noteq> [] then ps @ [cur] else ps"
    have "\<forall>p \<in> set ?ps. int (length p) \<le> m" using Cons.prems(1,2) by auto
    moreover have "int (length (s @ ''. '')) \<le> m" using s by simp
    ultimately have "\<forall>p \<in> set (unstripped_loop m ss ?ps (s @ ''. '')). int (length p) \<le> m"
      using ss by (intro Cons.IH) auto
    then show ?thesis using False by simp
  qed
qed

lemma strip_sentence:
  "s \<noteq> [] \<Longrightarrow> \<not> isspace (hd s) \<Longrightarrow> strip (s @ ''. '') = s @ ''.''"
  by (cases s) (simp_all add: strip_def isspace_def)

lemma split_two_sentences:
  "split_text_for_tts two_sentences default_max_chars
     = [replicate 1500 CHR ''a'' @ ''.'', replicate 1500 CHR ''b'' @ ''.'']"
proof -
  have "split_sentences two_sentences = [replicate 1500 CHR ''a'', replicate 1500 CHR ''b'']"
    unfolding two_sentences_def
    by (simp add: split_sentences_append split_sentences_nodot)
  moreover have "strip (replicate 1500 CHR ''a'' @ ''. '') = replicate 1500 CHR ''a'' @ ''.''"
    by (rule strip_sentence) (simp_all add: isspace_def)
  moreover have "strip (replicate 1500 CHR ''b'' @ ''. '') = replicate 1500 CHR ''b'' @ ''.''"
    by (rule strip_sentence) (simp_all add: isspace_def)
  ultimately show ?thesis
    by (simp add: split_text_for_tts_def default_max_chars_def two_sentences_def)
qed

lemma split_three_sentences:
  "split_text_for_tts three_sentences default_max_chars
     = [replicate 1500 CHR ''a'' @ ''.'', replicate 1500 CHR ''b'' @ ''.'',
        replicate 1500 CHR ''a'' @ ''.'']"
proof -
  have "split_sentences three_sentences
          = [replicate 1500 CHR ''a'', replicate 1500 CHR ''b'', replicate 1500 CHR ''a'']"
    unfolding three_sentences_def
    by (simp add: split_sentences_append split_sentences_nodot)
  moreover have "strip (replicate 1500 CHR ''a'' @ ''. '') = replicate 1500 CHR ''a'' @ ''.''"
    by (rule strip_sentence) (simp_all add: isspace_def)
  moreover have "strip (replicate 1500 CHR ''b'' @ ''. '') = replicate 1500 CHR ''b'' @ ''.''"
    by (rule strip_sentence) (simp_all add: isspace_def)
  ultimately show ?thesis
    by (simp add: split_text_for_tts_def default_max_chars_def three_sentences_def)
qed

text \<open>
  A sentence longer than the limit becomes a chunk longer than the limit: 2501
  characters without a separator give one chunk of 2502 characters.
\<close>

lemma split_long_sentence:
  "split_text_for_tts (replicate 2501 CHR ''a'') default_max_chars
     = [replicate 2501 CHR ''a'' @ ''.'']"
proof -
  have "split_sentences (replicate 2501 CHR ''a'') = [replicate 2501 CHR ''a'']"
    by (simp add: split_sentences_nodot)
  moreover have "strip (replicate 2501 CHR ''a'' @ ''. '') = replicate 2501 CHR ''a'' @ ''.''"
    by (rule strip_sentence) (simp_all add: isspace_def)
  ultimately show ?thesis
    by (simp add: split_text_for_tts_def default_max_chars_def)
qed

text \<open>
  C8 (as amended). A text at or below the limit is returned as the single, unmodified
  chunk. A longer text is cut at occurrences of the separator \<^verbatim>\<open>'. '\<close>: the chunks are,
  in order, the stripped pieces of a partition of the text followed by \<^verbatim>\<open>'. '\<close>, so
  they give the text back up to the whitespace stripped at the cuts and the final
  \<^verbatim>\<open>'.'\<close>; and when every sentence with its separator fits the limit, every chunk is
  within the limit.
\<close>

theorem split_text_for_tts_chunks:
  "(int (length text) \<le> max_chars \<longrightarrow> split_text_for_tts text max_chars = [text])
   \<and> (max_chars < int (length text) \<longrightarrow>
        split_text_for_tts text max_chars
          = map strip (unstripped_loop max_chars (split_sentences text) [] [])
        \<and> concat (unstripped_loop max_chars (split_sentences text) [] []) = text @ ''. ''
        \<and> ((\<forall>s \<in> set (split_sentences text). int (length s) + 2 \<le> max_chars) \<longrightarrow>
             (\<forall>c \<in> set (split_text_for_tts text max_chars). int (length c) \<le> max_chars)))"
proof -
  let ?raw = "unstripped_loop max_chars (split_sentences text) [] []"
  have eq: "split_loop max_chars (split_sentences text) [] [] = map strip ?raw"
    using split_loop_unstripped [of max_chars "split_sentences text" "[]" "[]"] by simp
  have cat: "concat ?raw = text @ ''. ''"
    by (simp add: concat_unstripped_loop concat_split_sentences)
  have bound: "\<forall>c \<in> set (map strip ?raw). int (length c) \<le> max_chars"
    if fit: "\<forall>s \<in> set (split_sentences text). int (length s) + 2 \<le> max_chars"
  proof -
    have raw: "\<forall>p \<in> set ?raw. int (length p) \<le> max_chars"
      using fit by (intro unstripped_loop_bounded) auto
    show ?thesis
    proof
      fix c assume "c \<in> set (map strip ?raw)"
      then obtain p where p: "p \<in> set ?raw" and c: "c = strip p" by auto
      have "int (length c) \<le> int (length p)" using length_strip [of p] c by simp
      also have "\<dots> \<le> max_chars" using raw p by blast
      finally show "int (length c) \<le> max_chars" .
    qed
  qed
  show ?thesis
    using eq cat bound by (simp add: split_text_for_tts_def)
qed

theorem split_text_for_tts_chunks_witness:
  "20 < int (length short_text)
   \<and> list_all (\<lambda>s. int (length s) + 2 \<le> 20) (split_sentences short_text)
   \<and> split_text_for_tts short_text 20 = [''Hello there.'', ''How are you.. Fine.'', ''ok. .'']
   \<and> list_all (\<lambda>c. int (length c) \<le> 20) (split_text_for_tts short_text 20)
   \<and> concat (unstripped_loop 20 (split_sentences short_text) [] []) = short_text @ ''. ''
   \<and> int (length ''Hi. Fine.'') \<le> 20
   \<and> split_text_for_tts ''Hi. Fine.'' 20 = [''Hi. Fine.'']"
  using split_text_for_tts_chunks [of short_text 20]
    split_text_for_tts_chunks [of "''Hi. Fine.''" 20]
  by (simp add: short_text_def split_text_for_tts_def strip_def isspace_def)

text \<open>
  C8, counterexample. Two sentences of 1500 characters, 3002 characters in all, give
  two chunks of 1501 characters; concatenated they are not the input text: the space
  after the first sentence is gone and a full stop is added at the end.
\<close>

theorem split_concat_counterexample:
  "default_max_chars < int (length two_sentences)
   \<and> split_text_for_tts two_sentences default_max_chars
       = [replicate 1500 CHR ''a'' @ ''.'', replicate 1500 CHR ''b'' @ ''.'']
   \<and> concat (split_text_for_tts two_sentences default_max_chars) \<noteq> two_sentences"
proof -
  have b: "replicate 1500 CHR ''b'' = CHR ''b'' # replicate 1499 CHR ''b''"
    by (simp add: replicate_Suc [symmetric] del: replicate_Suc)
  have c: "concat (split_text_for_tts two_sentences default_max_chars)
           = replicate 1500 CHR ''a'' @ ''.'' @ replicate 1500 CHR ''b'' @ ''.''"
    by (simp add: split_two_sentences)
  have "replicate 1500 CHR ''a'' @ ''.'' @ replicate 1500 CHR ''b'' @ ''.'' \<noteq> two_sentences"
    unfolding two_sentences_def by (simp add: b)
  then have "concat (split_text_for_tts two_sentences default_max_chars) \<noteq> two_sentences"
    unfolding c .
  then show ?thesis
    by (simp add: split_two_sentences) (simp add: two_sentences_def default_max_chars_def)
qed

section \<open>Properties of the synthesis cascade\<close>

lemma except_Exception_no_Exception:
  "(\<And>msg. handler msg \<noteq> Inl (Exception m)) \<Longrightarrow> except_Exception body handler \<noteq> Inl (Exception m)"
  by (auto simp: except_Exception_def split: sum.splits exn.splits)

lemma create_silent_audio_no_Exception: "create_silent_audio env st language \<noteq> Inl (Exception m)"
  unfolding create_silent_audio_def by (rule except_Exception_no_Exception) simp

lemma create_fallback_audio_no_Exception:
  "create_fallback_audio env st text language \<noteq> Inl (Exception m)"
  unfolding create_fallback_audio_def
  by (rule except_Exception_no_Exception) (rule create_silent_audio_no_Exception)

lemma create_voiceover_no_Exception:
  "fst (create_voiceover env st text language voice_style custom_voice_id) \<noteq> Inl (Exception m)"
proof (cases "truthy (api_key st)")
  case False
  then show ?thesis by (simp add: create_voiceover_def create_fallback_audio_no_Exception)
next
  case True
  show ?thesis
  proof (cases "select_voice_config st language voice_style custom_voice_id")
    case (Inl e)
    then show ?thesis using True
      by (cases e) (simp_all add: create_voiceover_def create_fallback_audio_no_Exception)
  next
    case (Inr r)
    obtain voice_config st' where r: "r = (voice_config, st')" by (cases r)
    have "except_Exception
            (and_then (primary_audio env st' voice_config text language) (\<lambda>final_audio.
               case final_audio of Some path \<Rightarrow> Inr path
               | None \<Rightarrow> create_fallback_audio env st' text language))
            (\<lambda>msg. create_fallback_audio env st' text language) \<noteq> Inl (Exception m)"
      by (rule except_Exception_no_Exception) (rule create_fallback_audio_no_Exception)
    then show ?thesis using True Inr r by (simp add: create_voiceover_def)
  qed
qed

text \<open>
  What the selection leaves alone: every field but the objects, and every object but the
  selected one.
\<close>

lemma select_voice_config_frame:
  assumes "select_voice_config st language voice_style custom_voice_id = Inr (voice_config, st')"
  shows "api_key st' = api_key st" "api_base st' = api_base st"
    "voice_configs st' = voice_configs st" "style_presets st' = style_presets st"
    "output_dir st' = output_dir st"
    "selected_object st language = Some voice_config"
    "r \<noteq> voice_config \<Longrightarrow> objects st' r = objects st r"
  using assms
  by (auto simp: select_voice_config_def and_then_def subscript_def dict_get_def Let_def
      selected_object_def split: option.splits sum.splits if_splits)

lemma create_fallback_audio_cong:
  "output_dir st' = output_dir st \<Longrightarrow>
   create_fallback_audio env st' text language = create_fallback_audio env st text language"
  by (simp add: create_fallback_audio_def create_silent_audio_def)

lemma primary_failed_fallback:
  assumes "primary_failed env st text language voice_style custom_voice_id"
  shows "fst (create_voiceover env st text language voice_style custom_voice_id)
           = create_fallback_audio env st text language"
proof (cases "truthy (api_key st)")
  case False
  then show ?thesis by (simp add: create_voiceover_def)
next
  case True
  show ?thesis
  proof (cases "select_voice_config st language voice_style custom_voice_id")
    case (Inl e)
    then show ?thesis using True assms
      by (cases e) (simp_all add: create_voiceover_def primary_failed_def)
  next
    case (Inr r)
    obtain voice_config st' where r: "r = (voice_config, st')" by (cases r)
    have out: "output_dir st' = output_dir st"
      using select_voice_config_frame(5) Inr r by blast
    have "case primary_audio env st' voice_config text language of
              Inl (Exception msg) \<Rightarrow> True
            | Inl (BaseExc msg) \<Rightarrow> False
            | Inr None \<Rightarrow> True
            | Inr (Some path) \<Rightarrow> False"
      using assms True Inr r by (simp add: primary_failed_def)
    then have main: "except_Exception
            (and_then (primary_audio env st' voice_config text language) (\<lambda>final_audio.
               case final_audio of Some path \<Rightarrow> Inr path
               | None \<Rightarrow> create_fallback_audio env st' text language))
            (\<lambda>msg. create_fallback_audio env st' text language)
          = create_fallback_audio env st' text language"
      using create_fallback_audio_no_Exception [of env st' "text" language]
      by (auto simp: except_Exception_def and_then_def split: sum.splits exn.splits option.splits)
    have "fst (create_voiceover env st text language voice_style custom_voice_id)
          = except_Exception
            (and_then (primary_audio env st' voice_config text language) (\<lambda>final_audio.
               case final_audio of Some path \<Rightarrow> Inr path
               | None \<Rightarrow> create_fallback_audio env st' text language))
            (\<lambda>msg. create_fallback_audio env st' text language)"
      using True Inr r by (simp add: create_voiceover_def)
    also have "\<dots> = create_fallback_audio env st' text language" by (rule main)
    also have "\<dots> = create_fallback_audio env st text language"
      by (rule create_fallback_audio_cong [OF out])
    finally show ?thesis .
  qed
qed

text \<open>
  C4 (as amended). No \<^verbatim>\<open>Exception\<close> leaves \<^verbatim>\<open>create_voiceover\<close>: the result is a
  string, unless an exception outside the \<^verbatim>\<open>Exception\<close> hierarchy comes from the
  environment. When the primary tier delivers no audio and the secondary provider
  raises, the result is the path of the 30-second silent file if \<^verbatim>\<open>ffmpeg\<close> ran and
  returned 0, and the empty string if running it raised. The result is a string only:
  no list of attempts is returned.
\<close>

theorem cascade_never_raises:
  "fst (create_voiceover env st text language voice_style custom_voice_id) \<noteq> Inl (Exception m)
   \<and> (primary_failed env st text language voice_style custom_voice_id
        \<and> gtts_save env text (dict_get gtts_lang_map language ''en'')
             (output_dir st @ ''/'' @ ''voice_fallback_'' @ language @ ''_'' @ timestamp env @ ''.mp3'')
            = Inl (Exception e)
      \<longrightarrow> (ffmpeg_silence env 30
              (output_dir st @ ''/'' @ ''voice_silent_'' @ language @ ''_'' @ timestamp env @ ''.mp3'')
              = Inr 0
            \<longrightarrow> fst (create_voiceover env st text language voice_style custom_voice_id)
                 = Inr (output_dir st @ ''/'' @ ''voice_silent_'' @ language @ ''_'' @ timestamp env @ ''.mp3''))
          \<and> (ffmpeg_silence env 30
              (output_dir st @ ''/'' @ ''voice_silent_'' @ language @ ''_'' @ timestamp env @ ''.mp3'')
              = Inl (Exception e')
            \<longrightarrow> fst (create_voiceover env st text language voice_style custom_voice_id) = Inr []))"
proof -
  have "fst (create_voiceover env st text language voice_style custom_voice_id)
          = create_fallback_audio env st text language"
    if "primary_failed env st text language voice_style custom_voice_id"
    using that by (rule primary_failed_fallback)
  then show ?thesis
    by (auto simp: create_voiceover_no_Exception create_fallback_audio_def create_silent_audio_def
        except_Exception_def and_then_def Let_def)
qed

lemmas voice_sample_defs =
  primary_failed_def silent_env_def offline_env_def init_voice_state_def init_objects_def
  select_voice_config_def subscript_def and_then_def primary_audio_def
  split_text_for_tts_def default_max_chars_def generate_audio_chunk_def
  except_Exception_def language_config_def style_preset_def first_or_None_def
  truthy_def dict_get_def Let_def

theorem cascade_never_raises_witness:
  "primary_failed silent_env (init_voice_state (Some ''key'')) ''Hello'' ''en'' ''professional'' None
   \<and> fst (create_voiceover silent_env (init_voice_state (Some ''key'')) ''Hello'' ''en'' ''professional'' None)
       = Inr ''output/audio/voice_silent_en_20250101_120000.mp3''
   \<and> primary_failed offline_env (init_voice_state (Some ''key'')) ''Hello'' ''en'' ''professional'' None
   \<and> fst (create_voiceover offline_env (init_voice_state (Some ''key'')) ''Hello'' ''en'' ''professional'' None)
       = Inr []"
proof -
  have p1: "primary_failed silent_env (init_voice_state (Some ''key'')) ''Hello'' ''en'' ''professional'' None"
    by (simp add: voice_sample_defs)
  have p2: "primary_failed offline_env (init_voice_state (Some ''key'')) ''Hello'' ''en'' ''professional'' None"
    by (simp add: voice_sample_defs)
  show ?thesis
    using p1 p2
      cascade_never_raises [of silent_env "init_voice_state (Some ''key'')" "''Hello''" "''en''"
        "''professional''" None _ "''No module named gtts''"]
      cascade_never_raises [of offline_env "init_voice_state (Some ''key'')" "''Hello''" "''en''"
        "''professional''" None _ "''No module named gtts''" "''No such file or directory: ffmpeg''"]
    by (simp add: silent_env_def offline_env_def init_voice_state_def)
qed

text \<open>
  C4, counterexample. Without an API key, without the \<^verbatim>\<open>gtts\<close> module and without an
  \<^verbatim>\<open>ffmpeg\<close> binary the call returns the empty string, which names no file.
\<close>

theorem cascade_empty_path_counterexample:
  "fst (create_voiceover offline_env (init_voice_state None) ''Hello'' ''en'' ''professional'' None) = Inr []"
  by (simp add: create_voiceover_def create_fallback_audio_def create_silent_audio_def
      except_Exception_def and_then_def offline_env_def init_voice_state_def truthy_def Let_def)

text \<open>
  The loop over the chunks returns when every call for a chunk returns, and then the
  collected files are the files of the calls that gave one, in the order of the chunks.
\<close>

lemma generate_chunks_outcomes:
  "generate_chunks env st vc lang i chunks acc = Inr files \<Longrightarrow>
   \<exists>outcomes. length outcomes = length chunks
     \<and> (\<forall>j < length chunks.
           generate_audio_chunk env st (chunks ! j) vc lang (i + j) = Inr (outcomes ! j))
     \<and> files = acc @ [f. Some f \<leftarrow> outcomes]"
proof (induction chunks arbitrary: i acc files)
  case Nil
  then show ?case by simp
next
  case (Cons c chunks)
  from Cons.prems obtain r where r: "generate_audio_chunk env st c vc lang i = Inr r"
    and rest: "generate_chunks env st vc lang (Suc i) chunks
                 (case r of None \<Rightarrow> acc | Some f \<Rightarrow> acc @ [f]) = Inr files"
    by (auto simp: and_then_def split: sum.splits)
  from Cons.IH [OF rest] obtain outcomes where o:
    "length outcomes = length chunks"
    "\<forall>j < length chunks.
        generate_audio_chunk env st (chunks ! j) vc lang (Suc i + j) = Inr (outcomes ! j)"
    "files = (case r of None \<Rightarrow> acc | Some f \<Rightarrow> acc @ [f]) @ [f. Some f \<leftarrow> outcomes]"
    by blast
  have "\<forall>j < length (c # chunks).
          generate_audio_chunk env st ((c # chunks) ! j) vc lang (i + j) = Inr ((r # outcomes) ! j)"
  proof (intro allI impI)
    fix j assume "j < length (c # chunks)"
    then show "generate_audio_chunk env st ((c # chunks) ! j) vc lang (i + j)
                 = Inr ((r # outcomes) ! j)"
      using r o(2) by (cases j) auto
  qed
  moreover have "files = acc @ [f. Some f \<leftarrow> r # outcomes]"
    using o(3) by (cases r) auto
  moreover have "length (r # outcomes) = length (c # chunks)" using o(1) by simp
  ultimately show ?case by blast
qed

text \<open>What the merge returns for two or more files, by what ffmpeg does.\<close>

lemma merge_audio_files_cases:
  assumes "audio_files \<noteq> []"
  shows
    "ffmpeg_concat env audio_files
        (output_dir st @ ''/'' @ ''voice_'' @ language @ ''_'' @ timestamp env @ ''_final.mp3'') = Inr 0
     \<Longrightarrow> unlink_files env
        ((output_dir st @ ''/'' @ ''filelist_'' @ timestamp env @ ''.txt'') # audio_files) = Inr ()
     \<Longrightarrow> merge_audio_files env st audio_files language
          = Inr (Some (output_dir st @ ''/'' @ ''voice_'' @ language @ ''_'' @ timestamp env @ ''_final.mp3''))"
    "ffmpeg_concat env audio_files
        (output_dir st @ ''/'' @ ''voice_'' @ language @ ''_'' @ timestamp env @ ''_final.mp3'') = Inr rc
     \<Longrightarrow> rc \<noteq> 0
     \<Longrightarrow> merge_audio_files env st audio_files language = Inr (Some (hd audio_files))"
    "ffmpeg_concat env audio_files
        (output_dir st @ ''/'' @ ''voice_'' @ language @ ''_'' @ timestamp env @ ''_final.mp3'')
        = Inl (Exception m)
     \<Longrightarrow> merge_audio_files env st audio_files language = Inr (Some (hd audio_files))"
    "ffmpeg_concat env audio_files
        (output_dir st @ ''/'' @ ''voice_'' @ language @ ''_'' @ timestamp env @ ''_final.mp3'') = Inr 0
     \<Longrightarrow> unlink_files env
        ((output_dir st @ ''/'' @ ''filelist_'' @ timestamp env @ ''.txt'') # audio_files)
        = Inl (Exception m)
     \<Longrightarrow> merge_audio_files env st audio_files language = Inr (Some (hd audio_files))"
  using assms
  by (cases audio_files;
      simp add: merge_audio_files_def except_Exception_def and_then_def first_or_None_def Let_def)+


text \<open>
  C3 (as amended). With an API key and a selected configuration, when the loop over
  the chunks returns, the files it has collected are the files of the chunks whose
  synthesis gave one, in the order of the chunks; a chunk that gave none is passed
  over. The cascade goes on to the secondary provider, with the full text, when no
  chunk gave a file. One file is returned as it is. Several files are handed to
  \<^verbatim>\<open>ffmpeg\<close>: the merged file is returned when it returns 0 and the temporary files
  are removed, and the first file alone when it returns another code or when merging
  or removing raises.
\<close>

theorem primary_tier_partial:
  assumes key: "truthy (api_key st)"
    and sel: "select_voice_config st language voice_style custom_voice_id = Inr (voice_config, st')"
    and gen: "generate_chunks env st' (objects st' voice_config) language 0
                (split_text_for_tts text default_max_chars) [] = Inr audio_files"
  shows "(\<exists>outcomes.
            length outcomes = length (split_text_for_tts text default_max_chars)
            \<and> (\<forall>j < length (split_text_for_tts text default_max_chars).
                  generate_audio_chunk env st' (split_text_for_tts text default_max_chars ! j)
                    (objects st' voice_config) language j = Inr (outcomes ! j))
            \<and> audio_files = [f. Some f \<leftarrow> outcomes])
     \<and> (audio_files = [] \<longrightarrow>
          fst (create_voiceover env st text language voice_style custom_voice_id)
            = create_fallback_audio env st' text language)
     \<and> (audio_files = [f] \<longrightarrow>
          fst (create_voiceover env st text language voice_style custom_voice_id) = Inr f)
     \<and> (1 < length audio_files \<longrightarrow>
          (ffmpeg_concat env audio_files
              (output_dir st @ ''/'' @ ''voice_'' @ language @ ''_'' @ timestamp env @ ''_final.mp3'')
              = Inr 0
            \<and> unlink_files env
                ((output_dir st @ ''/'' @ ''filelist_'' @ timestamp env @ ''.txt'') # audio_files)
              = Inr ()
            \<longrightarrow> fst (create_voiceover env st text language voice_style custom_voice_id)
                 = Inr (output_dir st @ ''/'' @ ''voice_'' @ language @ ''_'' @ timestamp env
                          @ ''_final.mp3''))
          \<and> (ffmpeg_concat env audio_files
              (output_dir st @ ''/'' @ ''voice_'' @ language @ ''_'' @ timestamp env @ ''_final.mp3'')
              = Inr rc \<and> rc \<noteq> 0
            \<longrightarrow> fst (create_voiceover env st text language voice_style custom_voice_id)
                 = Inr (hd audio_files))
          \<and> (ffmpeg_concat env audio_files
              (output_dir st @ ''/'' @ ''voice_'' @ language @ ''_'' @ timestamp env @ ''_final.mp3'')
              = Inl (Exception m)
            \<longrightarrow> fst (create_voiceover env st text language voice_style custom_voice_id)
                 = Inr (hd audio_files))
          \<and> (ffmpeg_concat env audio_files
              (output_dir st @ ''/'' @ ''voice_'' @ language @ ''_'' @ timestamp env @ ''_final.mp3'')
              = Inr 0
            \<and> unlink_files env
                ((output_dir st @ ''/'' @ ''filelist_'' @ timestamp env @ ''.txt'') # audio_files)
              = Inl (Exception m)
            \<longrightarrow> fst (create_voiceover env st text language voice_style custom_voice_id)
                 = Inr (hd audio_files)))"
proof -
  have out: "output_dir st' = output_dir st" using select_voice_config_frame(5) [OF sel] .
  have order: "\<exists>outcomes.
            length outcomes = length (split_text_for_tts text default_max_chars)
            \<and> (\<forall>j < length (split_text_for_tts text default_max_chars).
                  generate_audio_chunk env st' (split_text_for_tts text default_max_chars ! j)
                    (objects st' voice_config) language j = Inr (outcomes ! j))
            \<and> audio_files = [f. Some f \<leftarrow> outcomes]"
    using generate_chunks_outcomes [OF gen] by simp
  have prim: "primary_audio env st' voice_config text language =
      (if length audio_files > 1 then merge_audio_files env st' audio_files language
       else Inr (first_or_None audio_files))"
    using gen by (simp add: primary_audio_def and_then_def)
  have cv: "fst (create_voiceover env st text language voice_style custom_voice_id)
          = except_Exception
            (and_then (primary_audio env st' voice_config text language) (\<lambda>final_audio.
               case final_audio of Some path \<Rightarrow> Inr path
               | None \<Rightarrow> create_fallback_audio env st' text language))
            (\<lambda>msg. create_fallback_audio env st' text language)"
    using key sel by (simp add: create_voiceover_def)
  have none: "fst (create_voiceover env st text language voice_style custom_voice_id)
            = create_fallback_audio env st' text language" if "audio_files = []"
    using that create_fallback_audio_no_Exception [of env st' "text" language]
    unfolding cv prim
    by (auto simp: first_or_None_def and_then_def except_Exception_def split: sum.splits exn.splits)
  have one: "fst (create_voiceover env st text language voice_style custom_voice_id) = Inr f"
    if "audio_files = [f]"
    using that unfolding cv prim
    by (simp add: first_or_None_def and_then_def except_Exception_def)
  have merged: "fst (create_voiceover env st text language voice_style custom_voice_id) = Inr p"
    if "1 < length audio_files" "merge_audio_files env st' audio_files language = Inr (Some p)" for p
    using that unfolding cv prim
    by (simp add: and_then_def except_Exception_def)
  have ne: "audio_files \<noteq> []" if "1 < length audio_files" using that by auto
  note m = merge_audio_files_cases [of audio_files env st' language, unfolded out]
  show ?thesis
    using order none one merged ne m by (intro conjI impI; (elim conjE)?) blast+
qed

lemma str_nat_0: "str_nat 0 = ''0''"
  by code_simp

lemma str_nat_1: "str_nat (Suc 0) = ''1''"
  by code_simp

lemma str_nat_2: "str_nat (Suc (Suc 0)) = ''2''"
  by code_simp

lemma hd_sentence: "hd (replicate 1500 c @ ''.'') = c"
  by simp

lemmas chunk_eval =
  generate_audio_chunk_def except_Exception_def and_then_def subscript_def dict_get_def
  language_config_def style_preset_def flaky_env_def unmerged_env_def Let_def
  str_nat_0 str_nat_1 str_nat_2 hd_sentence

theorem primary_tier_partial_witness:
  "split_text_for_tts three_sentences default_max_chars
     = [replicate 1500 CHR ''a'' @ ''.'', replicate 1500 CHR ''b'' @ ''.'',
        replicate 1500 CHR ''a'' @ ''.'']
   \<and> fst (create_voiceover flaky_env (init_voice_state (Some ''key'')) three_sentences ''en''
          ''calm'' None) = Inr ''output/audio/voice_en_20250101_120000_final.mp3''
   \<and> fst (create_voiceover unmerged_env (init_voice_state (Some ''key'')) three_sentences ''en''
          ''calm'' None) = Inr ''output/audio/voice_en_20250101_120000_chunk0.mp3''
   \<and> fst (create_voiceover flaky_env (init_voice_state (Some ''key'')) ''Hello'' ''en''
          ''calm'' None) = Inr ''output/audio/voice_fallback_en_20250101_120000.mp3''"
proof -
  define st where "st = init_voice_state (Some ''key'')"
  define vc where "vc = language_config ''21m00Tcm4TlvDq8ikWAM'' (8 / 10) (6 / 10) (1 / 10)"
  define st' where "st' = st\<lparr>objects := (objects st)(0 := vc)\<rparr>"
  have key: "truthy (api_key st)" by (simp add: st_def init_voice_state_def truthy_def)
  have "language_config ''21m00Tcm4TlvDq8ikWAM'' (5 / 10) (8 / 10) 0
          ++ style_preset (8 / 10) (6 / 10) (1 / 10) = vc"
    by (auto simp: vc_def language_config_def style_preset_def map_add_def fun_eq_iff)
  then have sel: "select_voice_config st ''en'' ''calm'' None = Inr (0, st')"
    by (simp add: select_voice_config_def and_then_def subscript_def dict_get_def st_def st'_def
        init_voice_state_def init_objects_def Let_def)
  have obj: "objects st' 0 = vc" by (simp add: st'_def)
  have dir: "output_dir st' = ''output/audio''" "api_base st' = ''https://api.elevenlabs.io/v1''"
    by (simp_all add: st'_def st_def init_voice_state_def)
  have gen3: "generate_chunks flaky_env st' (objects st' 0) ''en'' 0
                (split_text_for_tts three_sentences default_max_chars) []
              = Inr [''output/audio/voice_en_20250101_120000_chunk0.mp3'',
                     ''output/audio/voice_en_20250101_120000_chunk2.mp3'']"
    unfolding split_three_sentences obj
    by (simp add: chunk_eval vc_def dir del: str_nat.simps)
  have gen3u: "generate_chunks unmerged_env st' (objects st' 0) ''en'' 0
                (split_text_for_tts three_sentences default_max_chars) []
              = Inr [''output/audio/voice_en_20250101_120000_chunk0.mp3'',
                     ''output/audio/voice_en_20250101_120000_chunk2.mp3'']"
    unfolding split_three_sentences obj
    by (simp add: chunk_eval vc_def dir del: str_nat.simps)
  have gen1: "generate_chunks flaky_env st' (objects st' 0) ''en'' 0
                (split_text_for_tts ''Hello'' default_max_chars) [] = Inr []"
    unfolding obj
    by (simp add: split_text_for_tts_def default_max_chars_def chunk_eval vc_def dir
        del: str_nat.simps)
  have fb: "create_fallback_audio flaky_env st' ''Hello'' ''en''
            = Inr ''output/audio/voice_fallback_en_20250101_120000.mp3''"
    by (simp add: create_fallback_audio_def except_Exception_def and_then_def dict_get_def
        gtts_lang_map_def flaky_env_def dir Let_def)
  show ?thesis
    using primary_tier_partial [OF key sel gen3, of _ 0]
      primary_tier_partial [OF key sel gen3u, of _ 1]
      primary_tier_partial [OF key sel gen1] fb
    by (simp add: st_def [symmetric] split_three_sentences)
      (simp add: st_def init_voice_state_def flaky_env_def unmerged_env_def)
qed

text \<open>
  C3, counterexample. The text of two sentences is split into two chunks. The service
  answers 500 to the second chunk. The call returns the file of the first chunk alone,
  not the file the secondary provider would have written for the full text.
\<close>

theorem primary_tier_partial_counterexample:
  "split_text_for_tts two_sentences default_max_chars
     = [replicate 1500 CHR ''a'' @ ''.'', replicate 1500 CHR ''b'' @ ''.'']
   \<and> post_tts flaky_env ''https://api.elevenlabs.io/v1'' (CStr ''21m00Tcm4TlvDq8ikWAM'') (Some ''key'')
        \<lparr>payload_text = replicate 1500 CHR ''b'' @ ''.'', payload_model_id = CStr ''eleven_multilingual_v2'',
         payload_stability = CNum (6 / 10), payload_similarity_boost = CNum (8 / 10),
         payload_style = CNum 0, payload_use_speaker_boost = CBool True\<rparr> = Inr 500
   \<and> fst (create_voiceover flaky_env (init_voice_state (Some ''key'')) two_sentences
        ''en'' ''professional'' None) = Inr ''output/audio/voice_en_20250101_120000_chunk0.mp3''
   \<and> create_fallback_audio flaky_env (init_voice_state (Some ''key'')) two_sentences ''en''
       = Inr ''output/audio/voice_fallback_en_20250101_120000.mp3''"
proof -
  have "fst (create_voiceover flaky_env (init_voice_state (Some ''key'')) two_sentences
        ''en'' ''professional'' None) = Inr ''output/audio/voice_en_20250101_120000_chunk0.mp3''"
    unfolding create_voiceover_def primary_audio_def split_two_sentences
    by (simp add: select_voice_config_def chunk_eval truthy_def first_or_None_def
      init_voice_state_def init_objects_def del: str_nat.simps)
  then show ?thesis
    by (simp add: split_two_sentences) (simp add: create_fallback_audio_def
      except_Exception_def and_then_def dict_get_def gtts_lang_map_def
      init_voice_state_def flaky_env_def Let_def)
qed

lemma snd_create_voiceover:
  "snd (create_voiceover env st text language voice_style custom_voice_id) =
     (if truthy (api_key st)
      then (case select_voice_config st language voice_style custom_voice_id of
              Inl e \<Rightarrow> st
            | Inr (voice_config, st') \<Rightarrow> st')
      else st)"
  by (simp add: create_voiceover_def split: sum.splits exn.splits prod.splits)

text \<open>The contents of the selected object after the two writes.\<close>

lemma select_voice_config_object:
  assumes "select_voice_config st language voice_style custom_voice_id = Inr (r, st')"
  shows "st' = st\<lparr>objects := (objects st)(r := objects st' r)\<rparr>"
    and "objects st' r =
      (case style_presets st voice_style of
         None \<Rightarrow> (case custom_voice_id of None \<Rightarrow> objects st r
                   | Some v \<Rightarrow> if v \<noteq> [] then (objects st r)(''voice_id'' \<mapsto> CStr v)
                              else objects st r)
       | Some p \<Rightarrow>
           (case custom_voice_id of None \<Rightarrow> objects st r
            | Some v \<Rightarrow> if v \<noteq> [] then (objects st r)(''voice_id'' \<mapsto> CStr v) else objects st r)
           ++ (if p = r
               then (case custom_voice_id of None \<Rightarrow> objects st r
                     | Some v \<Rightarrow> if v \<noteq> [] then (objects st r)(''voice_id'' \<mapsto> CStr v)
                                else objects st r)
               else objects st p))"
  using assms
  by (auto simp: select_voice_config_def and_then_def subscript_def dict_get_def Let_def
      split: option.splits sum.splits if_splits)


lemma select_voice_config_returns:
  "select_voice_config st language voice_style custom_voice_id = Inl e \<Longrightarrow>
   voice_configs st ''en'' = None"
  by (auto simp: select_voice_config_def and_then_def subscript_def Let_def split: option.splits)

lemma select_voice_config_idem:
  assumes sel: "select_voice_config st language voice_style custom_voice_id = Inr (r, st')"
  shows "select_voice_config st' language voice_style custom_voice_id = Inr (r, st')"
proof -
  note fr = select_voice_config_frame [OF sel]
  have en: "voice_configs st ''en'' \<noteq> None"
    using sel by (auto simp: select_voice_config_def and_then_def subscript_def split: option.splits)
  obtain r2 st2 where sel2: "select_voice_config st' language voice_style custom_voice_id = Inr (r2, st2)"
  proof (cases "select_voice_config st' language voice_style custom_voice_id")
    case (Inl e)
    then show ?thesis using select_voice_config_returns [OF Inl] en fr(3) by simp
  next
    case (Inr x)
    then show ?thesis using that by (cases x) auto
  qed
  note fr2 = select_voice_config_frame [OF sel2]
  have "selected_object st' language = selected_object st language"
    by (simp add: selected_object_def fr(3) split: option.splits)
  then have r2: "r2 = r" using fr(6) fr2(6) by simp
  note o1 = select_voice_config_object [OF sel]
  note o2 = select_voice_config_object [OF sel2 [unfolded r2]]
  have other: "objects st' p = objects st p" if "p \<noteq> r" for p using fr(7) that by simp
  define c1 where "c1 = (case custom_voice_id of None \<Rightarrow> objects st r
       | Some v \<Rightarrow> if v \<noteq> [] then (objects st r)(''voice_id'' \<mapsto> CStr v) else objects st r)"
  have again: "(case custom_voice_id of None \<Rightarrow> c1 ++ q
       | Some v \<Rightarrow> if v \<noteq> [] then (c1 ++ q)(''voice_id'' \<mapsto> CStr v) else c1 ++ q) ++ q = c1 ++ q"
    for q
    by (auto simp: c1_def map_add_def fun_eq_iff split: option.splits)
  have again0: "(case custom_voice_id of None \<Rightarrow> c1
       | Some v \<Rightarrow> if v \<noteq> [] then c1(''voice_id'' \<mapsto> CStr v) else c1) = c1"
    by (auto simp: c1_def fun_eq_iff split: option.splits)
  have idem: "m ++ m = m" for m :: voice_config
    by (auto simp: map_add_def fun_eq_iff split: option.splits)
  have o1': "objects st' r =
      (case style_presets st voice_style of None \<Rightarrow> c1
       | Some p \<Rightarrow> c1 ++ (if p = r then c1 else objects st p))"
    unfolding c1_def by (rule o1(2))
  have "objects st2 r = objects st' r"
  proof (cases "style_presets st voice_style")
    case None
    have a: "objects st' r = c1" using o1' None by simp
    show ?thesis using o2(2) None fr(4) unfolding a by (simp add: again0)
  next
    case (Some p)
    show ?thesis
    proof (cases "p = r")
      case True
      have a: "objects st' r = c1" using o1' Some True by (simp add: idem)
      show ?thesis using o2(2) Some True fr(4) unfolding a by (simp add: again0 idem)
    next
      case False
      have a: "objects st' r = c1 ++ objects st p" using o1' Some False by simp
      show ?thesis using o2(2) Some False fr(4) other [OF False] unfolding a by (simp add: again)
    qed
  qed
  then have "st2 = st'" using o2(1) by simp
  then show ?thesis using sel2 r2 by simp
qed


lemma select_voice_config_unstyled:
  assumes sel: "select_voice_config st language voice_style custom_voice_id = Inr (r, st')"
    and "\<not> truthy custom_voice_id" and "style_presets st voice_style = None"
  shows "st' = st"
proof -
  have "objects st' r = objects st r"
    using select_voice_config_object(2) [OF sel] assms(2,3)
    by (auto simp: truthy_def split: option.splits)
  then show ?thesis using select_voice_config_object(1) [OF sel] by simp
qed

text \<open>
  C6 (as amended). \<^verbatim>\<open>create_voiceover\<close> leaves the API key, the API base, the output
  directory and both tables of references as they are, and every dictionary object
  other than the one the entry of the requested language refers to (the entry of
  \<^verbatim>\<open>'en'\<close> when the language has none): the configuration read for another language
  is unchanged when its entry refers to another object. The whole state is unchanged
  when the API key is missing, or when no custom voice is given and the style is not a
  preset. A second call with the same language, style and custom voice leaves the state
  as the first call left it. \<^verbatim>\<open>update_voice_config\<close> is the operation that writes
  the configuration: into the object of a language that has an entry, or by making
  the caller's object the entry of a new language.
\<close>

theorem voice_config_frame:
  "api_key (snd (create_voiceover env st text language voice_style custom_voice_id)) = api_key st
   \<and> api_base (snd (create_voiceover env st text language voice_style custom_voice_id)) = api_base st
   \<and> output_dir (snd (create_voiceover env st text language voice_style custom_voice_id))
       = output_dir st
   \<and> voice_configs (snd (create_voiceover env st text language voice_style custom_voice_id))
       = voice_configs st
   \<and> style_presets (snd (create_voiceover env st text language voice_style custom_voice_id))
       = style_presets st
   \<and> (selected_object st language \<noteq> Some r \<longrightarrow>
        objects (snd (create_voiceover env st text language voice_style custom_voice_id)) r
          = objects st r)
   \<and> (voice_configs st l = Some r \<and> selected_object st language \<noteq> Some r \<longrightarrow>
        config_value (snd (create_voiceover env st text language voice_style custom_voice_id)) l k
          = config_value st l k)
   \<and> (\<not> truthy (api_key st) \<or> (\<not> truthy custom_voice_id \<and> style_presets st voice_style = None) \<longrightarrow>
        snd (create_voiceover env st text language voice_style custom_voice_id) = st)
   \<and> snd (create_voiceover env' (snd (create_voiceover env st text language voice_style custom_voice_id))
            text' language voice_style custom_voice_id)
       = snd (create_voiceover env st text language voice_style custom_voice_id)
   \<and> config_value (update_voice_config st language config) language k
       = (case objects st config k of Some v \<Rightarrow> Some v | None \<Rightarrow> config_value st language k)
   \<and> (voice_configs st language = None \<longrightarrow>
        update_voice_config st language config
          = st\<lparr>voice_configs := (voice_configs st)(language \<mapsto> config)\<rparr>)
   \<and> (voice_configs st language = Some r \<longrightarrow>
        update_voice_config st language config
          = st\<lparr>objects := (objects st)(r := objects st r ++ objects st config)\<rparr>)"
proof -
  have upd: "config_value (update_voice_config st language config) language k
       = (case objects st config k of Some v \<Rightarrow> Some v | None \<Rightarrow> config_value st language k)"
    "voice_configs st language = None \<longrightarrow>
        update_voice_config st language config
          = st\<lparr>voice_configs := (voice_configs st)(language \<mapsto> config)\<rparr>"
    "voice_configs st language = Some r \<longrightarrow>
        update_voice_config st language config
          = st\<lparr>objects := (objects st)(r := objects st r ++ objects st config)\<rparr>"
    by (auto simp: update_voice_config_def config_value_def map_add_def split: option.splits)
  show ?thesis
  proof (cases "truthy (api_key st)")
    case False
    then show ?thesis using upd by (simp add: snd_create_voiceover)
  next
    case True
    show ?thesis
    proof (cases "select_voice_config st language voice_style custom_voice_id")
      case (Inl e)
      then show ?thesis using True upd by (simp add: snd_create_voiceover)
    next
      case (Inr x)
      obtain r0 st' where x: "x = (r0, st')" by (cases x)
      have sel: "select_voice_config st language voice_style custom_voice_id = Inr (r0, st')"
        using Inr x by simp
      have s1: "snd (create_voiceover env st text language voice_style custom_voice_id) = st'"
        using True sel by (simp add: snd_create_voiceover)
      note fr = select_voice_config_frame [OF sel]
      have key': "truthy (api_key st')" using True fr(1) by simp
      have s2: "snd (create_voiceover env' st' text' language voice_style custom_voice_id) = st'"
        using key' select_voice_config_idem [OF sel] by (simp add: snd_create_voiceover)
      have other: "objects st' r = objects st r" if "selected_object st language \<noteq> Some r"
        using that fr(6) fr(7) [of r] by auto
      have cfg: "config_value st' l k = config_value st l k"
        if "voice_configs st l = Some r" "selected_object st language \<noteq> Some r"
        using that other fr(3) by (simp add: config_value_def)
      have same: "st' = st" if "\<not> truthy custom_voice_id" "style_presets st voice_style = None"
        using select_voice_config_unstyled [OF sel that] .
      show ?thesis
        unfolding s1 s2 using fr(1-5) other cfg same True upd by simp
    qed
  qed
qed

theorem voice_config_frame_witness:
  "voice_configs shared_state ''de'' = Some 1 \<and> selected_object shared_state ''fr'' = Some 9
   \<and> config_value (snd (create_voiceover offline_env shared_state ''Bonjour'' ''fr''
         ''energetic'' None)) ''de'' ''stability'' = Some (CNum (6 / 10))
   \<and> \<not> truthy None \<and> style_presets shared_state ''whisper'' = None
   \<and> snd (create_voiceover offline_env shared_state ''Bonjour'' ''fr'' ''whisper'' None)
       = shared_state"
proof -
  have a: "voice_configs shared_state ''de'' = Some 1"
    "selected_object shared_state ''fr'' = Some 9"
    "style_presets shared_state ''whisper'' = None"
    "config_value shared_state ''de'' ''stability'' = Some (CNum (6 / 10))"
    by (simp_all add: shared_state_def update_voice_config_def init_voice_state_def
        init_objects_def selected_object_def config_value_def language_config_def)
  show ?thesis
    using a
      voice_config_frame [of offline_env shared_state "''Bonjour''" "''fr''" "''energetic''"
        None 1 "''de''" "''stability''"]
      voice_config_frame [of offline_env shared_state "''Bonjour''" "''fr''" "''whisper''" None]
    by (simp add: truthy_def)
qed

text \<open>
  C6, counterexample. After a call for German in the style \<^verbatim>\<open>energetic\<close> the stability
  stored for German is 0.4 instead of 0.6. When two languages share one dictionary
  object, a call for French changes what is read for Spanish. And
  \<^verbatim>\<open>update_voice_config\<close> stores for German what the caller's dictionary holds.
\<close>

theorem voice_config_mutated_counterexample:
  "config_value (init_voice_state (Some ''key'')) ''de'' ''stability'' = Some (CNum (6 / 10))
   \<and> config_value (snd (create_voiceover offline_env (init_voice_state (Some ''key''))
        ''Hallo'' ''de'' ''energetic'' None)) ''de'' ''stability'' = Some (CNum (4 / 10))
   \<and> config_value shared_state ''es'' ''stability'' = Some (CNum (5 / 10))
   \<and> config_value (snd (create_voiceover offline_env shared_state
        ''Bonjour'' ''fr'' ''energetic'' None)) ''es'' ''stability'' = Some (CNum (4 / 10))
   \<and> config_value (update_voice_config shared_state ''de'' 5) ''de'' ''stability''
       = Some (CNum (4 / 10))"
  by (simp add: snd_create_voiceover select_voice_config_def and_then_def subscript_def
      dict_get_def truthy_def shared_state_def init_voice_state_def init_objects_def
      language_config_def style_preset_def config_value_def update_voice_config_def Let_def)

section \<open>Properties of the stage pipeline\<close>

lemma update_fresh: "k \<notin> fst ` set al \<Longrightarrow> AList.update k v al = al @ [(k, v)]"
  by (induction al) auto

lemma map_fst_language_runs:
  "map fst (language_runs c topic categ inc td langs w) = langs"
  by (induction langs arbitrary: w) (auto split: prod.splits)

lemma language_loop_runs:
  "\<forall>(l, r) \<in> set (language_runs c topic categ inc td langs w). \<not> is_interrupt r \<Longrightarrow>
   fst (language_loop c topic categ inc td langs res w) =
     Inr (foldl (\<lambda>res (l, r). AList.update l (entry_of r) res) res
            (language_runs c topic categ inc td langs w))"
proof (induction langs arbitrary: res w)
  case Nil
  show ?case by simp
next
  case (Cons lang langs)
  obtain r w' where run: "run_language c topic categ inc td lang w = (r, w')"
    by (cases "run_language c topic categ inc td lang w")
  have r: "\<not> is_interrupt r"
    and rest: "\<forall>(l, r) \<in> set (language_runs c topic categ inc td langs w'). \<not> is_interrupt r"
    using Cons.prems run by auto
  note IH = Cons.IH [OF rest]
  show ?case
  proof (cases r)
    case (Inr a)
    then show ?thesis using run IH by (simp add: entry_of_def)
  next
    case (Inl e)
    then obtain msg where "e = Exception msg" using r by (cases e) (auto simp: is_interrupt_def)
    then show ?thesis using Inl run IH by (simp add: entry_of_def)
  qed
qed

lemma foldl_update_distinct:
  "distinct (map fst runs) \<Longrightarrow> fst ` set runs \<inter> fst ` set res = {} \<Longrightarrow>
   foldl (\<lambda>res (l, r). AList.update l (f r) res) res runs = res @ map (\<lambda>(l, r). (l, f r)) runs"
proof (induction runs arbitrary: res)
  case Nil
  show ?case by simp
next
  case (Cons p runs)
  obtain l r where p: "p = (l, r)" by (cases p)
  have fresh: "l \<notin> fst ` set res" using Cons.prems(2) p by auto
  have "fst ` set runs \<inter> fst ` set (res @ [(l, f r)]) = {}"
    using Cons.prems p by auto
  moreover have "distinct (map fst runs)" using Cons.prems(1) by simp
  ultimately have "foldl (\<lambda>res (l, r). AList.update l (f r) res) (res @ [(l, f r)]) runs
      = (res @ [(l, f r)]) @ map (\<lambda>(l, r). (l, f r)) runs"
    by (rule Cons.IH [rotated])
  then show ?case using p fresh by (simp add: update_fresh)
qed

text \<open>
  The pipeline of one language, stage by stage: the first stage that raises ends the
  run with its exception, in the world that stage left; when every stage returns, the
  run returns the artifacts the stages made.
\<close>

lemma run_language_stages:
  fixes c :: "'w collaborators" and categ :: string and include_affiliates :: bool
  defines "enrich s0 w1 \<equiv>
     (if include_affiliates then add_affiliate_content c s0 categ w1 else (Inr s0, w1))"
  shows
    "generate_script c topic lang categ trend_data w0 = (Inl e, w1) \<Longrightarrow>
       run_language c topic categ include_affiliates trend_data lang w0 = (Inl e, w1)"
    "generate_script c topic lang categ trend_data w0 = (Inr s0, w1) \<Longrightarrow>
     enrich s0 w1 = (Inl e, w2) \<Longrightarrow>
       run_language c topic categ include_affiliates trend_data lang w0 = (Inl e, w2)"
    "generate_script c topic lang categ trend_data w0 = (Inr s0, w1) \<Longrightarrow>
     enrich s0 w1 = (Inr s1, w2) \<Longrightarrow> s1 ''content'' = None \<Longrightarrow>
       run_language c topic categ include_affiliates trend_data lang w0
         = (Inl (Exception (repr_str ''content'')), w2)"
    "generate_script c topic lang categ trend_data w0 = (Inr s0, w1) \<Longrightarrow>
     enrich s0 w1 = (Inr s1, w2) \<Longrightarrow> s1 ''content'' = Some content \<Longrightarrow>
     voiceover c content lang (dict_get s1 ''voice_style'' (PStr ''professional'')) w2 = (Inl e, w3) \<Longrightarrow>
       run_language c topic categ include_affiliates trend_data lang w0 = (Inl e, w3)"
    "generate_script c topic lang categ trend_data w0 = (Inr s0, w1) \<Longrightarrow>
     enrich s0 w1 = (Inr s1, w2) \<Longrightarrow> s1 ''content'' = Some content \<Longrightarrow>
     voiceover c content lang (dict_get s1 ''voice_style'' (PStr ''professional'')) w2 = (Inr audio, w3) \<Longrightarrow>
     create_video c s1 audio lang categ w3 = (Inl e, w4) \<Longrightarrow>
       run_language c topic categ include_affiliates trend_data lang w0 = (Inl e, w4)"
    "generate_script c topic lang categ trend_data w0 = (Inr s0, w1) \<Longrightarrow>
     enrich s0 w1 = (Inr s1, w2) \<Longrightarrow> s1 ''content'' = Some content \<Longrightarrow>
     voiceover c content lang (dict_get s1 ''voice_style'' (PStr ''professional'')) w2 = (Inr audio, w3) \<Longrightarrow>
     create_video c s1 audio lang categ w3 = (Inr video, w4) \<Longrightarrow>
     upload_video c video s1 lang w4 = (Inl e, w5) \<Longrightarrow>
       run_language c topic categ include_affiliates trend_data lang w0 = (Inl e, w5)"
    "generate_script c topic lang categ trend_data w0 = (Inr s0, w1) \<Longrightarrow>
     enrich s0 w1 = (Inr s1, w2) \<Longrightarrow> s1 ''content'' = Some content \<Longrightarrow>
     voiceover c content lang (dict_get s1 ''voice_style'' (PStr ''professional'')) w2 = (Inr audio, w3) \<Longrightarrow>
     create_video c s1 audio lang categ w3 = (Inr video, w4) \<Longrightarrow>
     upload_video c video s1 lang w4 = (Inr upload, w5) \<Longrightarrow>
       run_language c topic categ include_affiliates trend_data lang w0
         = (Inr \<lparr>script = s1, audio_path = audio, video_path = video,
                 upload_results = upload, created_at = now_isoformat c w5\<rparr>, w5)"
  unfolding enrich_def
  by (auto simp: run_language_def then_do_def pure_step_def subscript_def split: if_splits)


text \<open>
  C9. When no language's pipeline is interrupted, that is, when whatever a stage raises
  is an \<^verbatim>\<open>Exception\<close>, \<^verbatim>\<open>create_video_content\<close> runs the pipeline of every requested
  language, one after the other, whether or not an earlier language failed, and
  records for each language the outcome of its own run; for distinct languages the
  result has exactly one entry per language, in the order requested. The entry of a
  run that raised an \<^verbatim>\<open>Exception\<close> is an error record with the exception's message,
  the entry of a run that returned holds its artifacts. A run raises what its first
  failing stage raises (script, affiliate content, the script's content, voiceover,
  video, upload, in this order), and a run whose stages all return yields the script,
  the audio path, the video path and the upload results those stages returned.
\<close>

theorem language_failure_isolated:
  fixes c :: "'w collaborators" and categ :: string and include_affiliates :: bool
  defines "enrich s0 w1 \<equiv>
     (if include_affiliates then add_affiliate_content c s0 categ w1 else (Inr s0, w1))"
  assumes "\<forall>(l, r) \<in> set (language_runs c topic categ include_affiliates trend_data languages w).
             \<not> is_interrupt r"
  shows "fst (create_video_content c topic categ (Some languages) include_affiliates trend_data w)
           = Inr (foldl (\<lambda>results (l, r). AList.update l (entry_of r) results) []
                    (language_runs c topic categ include_affiliates trend_data languages w))
     \<and> map fst (language_runs c topic categ include_affiliates trend_data languages w) = languages
     \<and> (distinct languages \<longrightarrow>
          fst (create_video_content c topic categ (Some languages) include_affiliates trend_data w)
            = Inr (map (\<lambda>(l, r). (l, entry_of r))
                     (language_runs c topic categ include_affiliates trend_data languages w)))
     \<and> entry_of (Inl (Exception msg)) = ErrorRecord msg
     \<and> entry_of (Inr a) = Artifacts a
     \<and> (generate_script c topic lang categ trend_data w0 = (Inl e, w1) \<longrightarrow>
          run_language c topic categ include_affiliates trend_data lang w0 = (Inl e, w1))
     \<and> (generate_script c topic lang categ trend_data w0 = (Inr s0, w1)
          \<and> enrich s0 w1 = (Inl e, w2) \<longrightarrow>
          run_language c topic categ include_affiliates trend_data lang w0 = (Inl e, w2))
     \<and> (generate_script c topic lang categ trend_data w0 = (Inr s0, w1)
          \<and> enrich s0 w1 = (Inr s1, w2) \<and> s1 ''content'' = None \<longrightarrow>
          run_language c topic categ include_affiliates trend_data lang w0
            = (Inl (Exception (repr_str ''content'')), w2))
     \<and> (generate_script c topic lang categ trend_data w0 = (Inr s0, w1)
          \<and> enrich s0 w1 = (Inr s1, w2) \<and> s1 ''content'' = Some content
          \<and> voiceover c content lang (dict_get s1 ''voice_style'' (PStr ''professional'')) w2
              = (Inl e, w3) \<longrightarrow>
          run_language c topic categ include_affiliates trend_data lang w0 = (Inl e, w3))
     \<and> (generate_script c topic lang categ trend_data w0 = (Inr s0, w1)
          \<and> enrich s0 w1 = (Inr s1, w2) \<and> s1 ''content'' = Some content
          \<and> voiceover c content lang (dict_get s1 ''voice_style'' (PStr ''professional'')) w2
              = (Inr audio, w3)
          \<and> create_video c s1 audio lang categ w3 = (Inl e, w4) \<longrightarrow>
          run_language c topic categ include_affiliates trend_data lang w0 = (Inl e, w4))
     \<and> (generate_script c topic lang categ trend_data w0 = (Inr s0, w1)
          \<and> enrich s0 w1 = (Inr s1, w2) \<and> s1 ''content'' = Some content
          \<and> voiceover c content lang (dict_get s1 ''voice_style'' (PStr ''professional'')) w2
              = (Inr audio, w3)
          \<and> create_video c s1 audio lang categ w3 = (Inr video, w4)
          \<and> upload_video c video s1 lang w4 = (Inl e, w5) \<longrightarrow>
          run_language c topic categ include_affiliates trend_data lang w0 = (Inl e, w5))
     \<and> (generate_script c topic lang categ trend_data w0 = (Inr s0, w1)
          \<and> enrich s0 w1 = (Inr s1, w2) \<and> s1 ''content'' = Some content
          \<and> voiceover c content lang (dict_get s1 ''voice_style'' (PStr ''professional'')) w2
              = (Inr audio, w3)
          \<and> create_video c s1 audio lang categ w3 = (Inr video, w4)
          \<and> upload_video c video s1 lang w4 = (Inr upload, w5) \<longrightarrow>
          run_language c topic categ include_affiliates trend_data lang w0
            = (Inr \<lparr>script = s1, audio_path = audio, video_path = video,
                    upload_results = upload, created_at = now_isoformat c w5\<rparr>, w5))"
proof -
  let ?runs = "language_runs c topic categ include_affiliates trend_data languages w"
  have loop: "fst (create_video_content c topic categ (Some languages) include_affiliates trend_data w)
           = Inr (foldl (\<lambda>results (l, r). AList.update l (entry_of r) results) [] ?runs)"
    unfolding create_video_content_def using language_loop_runs [OF assms(2)] by simp
  have keys: "map fst ?runs = languages" by (rule map_fst_language_runs)
  have dist: "foldl (\<lambda>results (l, r). AList.update l (entry_of r) results) [] ?runs
          = map (\<lambda>(l, r). (l, entry_of r)) ?runs" if "distinct languages"
    using foldl_update_distinct [of ?runs "[]" entry_of] that keys by simp
  note st = run_language_stages [of c topic lang categ trend_data w0]
  show ?thesis
    apply (intro conjI impI)
    subgoal by (rule loop)
    subgoal by (rule keys)
    subgoal using loop dist by simp
    subgoal by (simp add: entry_of_def)
    subgoal by (simp add: entry_of_def)
    subgoal by (rule st(1))
    subgoal unfolding enrich_def by (elim conjE) (rule st(2))
    subgoal unfolding enrich_def by (elim conjE) (rule st(3))
    subgoal unfolding enrich_def by (elim conjE) (rule st(4))
    subgoal unfolding enrich_def by (elim conjE) (rule st(5))
    subgoal unfolding enrich_def by (elim conjE) (rule st(6))
    subgoal unfolding enrich_def by (elim conjE) (rule st(7))
    done
qed


theorem language_failure_isolated_witness:
  "run_language (sample_collaborators [''de''] []) ''AI tools'' ''tech'' True None ''de'' 0
     = (Inl (Exception ''voice service unavailable''), 3)
   \<and> fst (create_video_content (sample_collaborators [''de''] []) ''AI tools'' ''tech''
          (Some [''de'', ''en'', ''ko'']) True None 0)
     = Inr [(''de'', ErrorRecord ''voice service unavailable''),
            (''en'', Artifacts (sample_artifacts ''AI tools'' ''tech'' ''en'' 8)),
            (''ko'', Artifacts (sample_artifacts ''AI tools'' ''tech'' ''ko'' 13))]
   \<and> fst (create_video_content (sample_collaborators [''de''] []) ''AI tools'' ''tech''
          (Some [''en'', ''de'']) True None 0)
     = Inr [(''en'', Artifacts (sample_artifacts ''AI tools'' ''tech'' ''en'' 5)),
            (''de'', ErrorRecord ''voice service unavailable'')]
   \<and> length (filter is_error [(''en'', Artifacts (sample_artifacts ''AI tools'' ''tech'' ''en'' 5)),
            (''de'', ErrorRecord ''voice service unavailable'')]) = 1"
proof -
  let ?c = "sample_collaborators [''de''] []"
  have runs3: "language_runs ?c ''AI tools'' ''tech'' True None [''de'', ''en'', ''ko''] 0
              = [(''de'', Inl (Exception ''voice service unavailable'')),
                 (''en'', Inr (sample_artifacts ''AI tools'' ''tech'' ''en'' 8)),
                 (''ko'', Inr (sample_artifacts ''AI tools'' ''tech'' ''ko'' 13))]"
    by (simp add: run_language_def then_do_def pure_step_def subscript_def dict_get_def
        sample_collaborators_def sample_script_def sample_artifacts_def eval_nat_numeral)
  have runs2: "language_runs ?c ''AI tools'' ''tech'' True None [''en'', ''de''] 0
              = [(''en'', Inr (sample_artifacts ''AI tools'' ''tech'' ''en'' 5)),
                 (''de'', Inl (Exception ''voice service unavailable''))]"
    by (simp add: run_language_def then_do_def pure_step_def subscript_def dict_get_def
        sample_collaborators_def sample_script_def sample_artifacts_def eval_nat_numeral)
  have h3: "\<forall>(l, r) \<in> set (language_runs ?c ''AI tools'' ''tech'' True None
              [''de'', ''en'', ''ko''] 0). \<not> is_interrupt r"
    unfolding runs3 by (simp add: is_interrupt_def)
  have h2: "\<forall>(l, r) \<in> set (language_runs ?c ''AI tools'' ''tech'' True None
              [''en'', ''de''] 0). \<not> is_interrupt r"
    unfolding runs2 by (simp add: is_interrupt_def)
  have stage: "run_language ?c ''AI tools'' ''tech'' True None ''de'' 0
     = (Inl (Exception ''voice service unavailable''), 3)"
    using language_failure_isolated [OF h3, where lang = "''de''" and ?w0.0 = 0 and ?w1.0 = 1
        and ?s0.0 = "sample_script ''AI tools'' ''de''" and ?w2.0 = 2
        and ?s1.0 = "(sample_script ''AI tools'' ''de'')(''affiliate'' \<mapsto> PStr ''tech'')"
        and content = "PStr ''Hello. Thanks for watching!''"
        and e = "Exception ''voice service unavailable''" and ?w3.0 = 3]
    by (simp add: sample_collaborators_def sample_script_def dict_get_def eval_nat_numeral)
  show ?thesis
    using stage language_failure_isolated [OF h3] language_failure_isolated [OF h2]
    unfolding runs3 runs2 by (simp add: entry_of_def is_error_def)
qed

section \<open>Properties of the feedback collection\<close>










text \<open>
  A result that holds several uploads is collected inside one \<^verbatim>\<open>try\<close> block: an
  exception ends the collection for that result. The cycle hands over no such result.
\<close>

lemma collect_feedback_shared_result:
  "fst (snd (collect_feedback_for_videos
          (sample_collaborators [] [''upload_of_video_of_voice_en_calm''])
          [[(''en'', Artifacts (sample_artifacts ''AI tools'' ''tech'' ''en'' 5)),
            (''ko'', Artifacts (sample_artifacts ''AI tools'' ''tech'' ''ko'' 10))]] 0))
     = [Slept 7200, MetricsCall ''upload_of_video_of_voice_en_calm'',
        LoggedError ''metrics unavailable'']"
  by (simp add: collect_feedback_for_videos_def sample_collaborators_def sample_artifacts_def)

section \<open>Properties of the automatic mode\<close>

lemma auto_loop_add:
  "auto_loop body sleeping (n + j) started logged w =
     (case auto_loop body sleeping n started logged w of
        (None, k, logged', w') \<Rightarrow> auto_loop body sleeping j k logged' w'
      | (Some e, k, logged', w') \<Rightarrow> (Some e, k, logged', w'))"
proof (induction n arbitrary: started logged w)
  case 0
  show ?case by simp
next
  case (Suc n)
  show ?case
    by (simp add: Suc.IH split: prod.splits sum.splits)
qed

lemma auto_loop_started:
  "auto_loop body sleeping n started logged w = (None, k, logged', w') \<Longrightarrow> k = started + n"
proof (induction n arbitrary: started logged w)
  case 0
  then show ?case by simp
next
  case (Suc n)
  from Suc.prems show ?case
    by (auto split: prod.splits sum.splits dest!: Suc.IH)
qed

text \<open>
  C2 (as amended). In the automatic mode, when the first \<open>n\<close> cycles and sleeps have
  returned and the next cycle raises an \<^verbatim>\<open>Exception\<close>, the error is logged by the
  cycle and again by \<^verbatim>\<open>main\<close>, the process exits with status 1, and no cycle after
  the failed one is started, however long the loop is followed. Up to that cycle the
  process is still running.
\<close>

theorem auto_mode_exits_on_cycle_failure:
  assumes ok: "auto_loop body sleeping n 0 [AutoModeStarted] w = (None, k, logged, w')"
    and bad: "fst (body w') = Inl (Exception msg)"
  shows "main_auto_mode body sleeping (n + Suc extra) w
           = (Exited 1, Suc n, logged @ [CycleStarted, CycleError msg, CriticalError msg])
         \<and> main_auto_mode body sleeping n w = (StillRunning, n, logged)"
proof -
  have k: "k = n" using auto_loop_started [OF ok] by simp
  obtain w'' where b: "body w' = (Inl (Exception msg), w'')" using bad by (cases "body w'") auto
  have "auto_loop body sleeping (Suc extra) k logged w'
          = (Some (Exception msg), Suc k, logged @ [CycleStarted, CycleError msg], w'')"
    using b by (simp add: run_automation_cycle_def)
  then have "auto_loop body sleeping (n + Suc extra) 0 [AutoModeStarted] w
          = (Some (Exception msg), Suc k, logged @ [CycleStarted, CycleError msg], w'')"
    using ok by (simp only: auto_loop_add) simp
  then show ?thesis using ok k by (simp add: main_auto_mode_def)
qed

theorem auto_mode_exits_on_cycle_failure_witness:
  "fst (sample_body 2 2) = Inl (Exception ''ranking crashed'')
   \<and> main_auto_mode (sample_body 2) sample_sleeping 2 0
       = (StillRunning, 2, [AutoModeStarted, CycleStarted, CycleCompleted 0,
                            CycleStarted, CycleCompleted 0])
   \<and> main_auto_mode (sample_body 2) sample_sleeping 5 0
       = (Exited 1, 3, [AutoModeStarted, CycleStarted, CycleCompleted 0,
                        CycleStarted, CycleCompleted 0,
                        CycleStarted, CycleError ''ranking crashed'',
                        CriticalError ''ranking crashed''])"
proof -
  have ok: "auto_loop (sample_body 2) sample_sleeping 2 0 [AutoModeStarted] 0
        = (None, 2, [AutoModeStarted, CycleStarted, CycleCompleted 0,
                            CycleStarted, CycleCompleted 0], 2)"
    by (simp add: numeral_2_eq_2 run_automation_cycle_def sample_body_def sample_sleeping_def)
  have bad: "fst (sample_body 2 2) = Inl (Exception ''ranking crashed'')"
    by (simp add: sample_body_def)
  show ?thesis
    using auto_mode_exits_on_cycle_failure [OF ok bad, of 2] bad by simp
qed

text \<open>
  C2, counterexample. The first cycle fails, every later cycle would succeed. The
  process exits with status 1 after one cycle; the second cycle is never started.
\<close>

theorem auto_mode_stops_counterexample:
  "fst (sample_body 0 1) = Inr []
   \<and> main_auto_mode (sample_body 0) sample_sleeping 5 0
       = (Exited 1, 1, [AutoModeStarted, CycleStarted, CycleError ''ranking crashed'',
                        CriticalError ''ranking crashed''])"
  by (simp add: main_auto_mode_def run_automation_cycle_def sample_body_def eval_nat_numeral)

end

